theory Spec2Isabelle
  imports Main "HOL-Library.AList"
begin

section \<open>The presence console (app/page.tsx)\<close>

text \<open>
  The page is one React component, \<open>Home\<close>. The source tree holds a second, earlier copy
  of it, which differs in the default user name and in the callback of the room topic (there
  it only logs); nothing below depends on either.
\<close>

subsection \<open>JavaScript values and objects\<close>

text \<open>
  The values that travel through the console are untyped at run time: a TypeScript cast
  such as \<open>payload.data as RoomPresence\<close> checks nothing. A property that is missing and
  a property that holds \<open>undefined\<close> are different things for the object spread, so
  \<open>undefined\<close> is a value of its own. Numbers are kept as integers: the console never
  computes with the numbers it receives.
\<close>

datatype jsvalue =
    JUndefined
  | JNull
  | JBool bool
  | JNumber int
  | JString string
  | JArray "jsvalue list"
  | JObject "(string \<times> jsvalue) list"

type_synonym jsobject = "(string \<times> jsvalue) list"

text \<open>Reading a property: a missing one reads as \<open>undefined\<close>.\<close>

definition getProp :: "jsobject \<Rightarrow> string \<Rightarrow> jsvalue" where
  "getProp obj k = (case map_of obj k of None \<Rightarrow> JUndefined | Some v \<Rightarrow> v)"

text \<open>What an \<open>if (v)\<close> tests.\<close>

fun truthy :: "jsvalue \<Rightarrow> bool" where
  "truthy JUndefined = False"
| "truthy JNull = False"
| "truthy (JBool b) = b"
| "truthy (JNumber n) = (n \<noteq> 0)"
| "truthy (JString s) = (s \<noteq> [])"
| "truthy (JArray xs) = True"
| "truthy (JObject ps) = True"

fun isArray :: "jsvalue \<Rightarrow> bool" where
  "isArray (JArray xs) = True"
| "isArray v = False"

text \<open>The operator \<open>a ?? b\<close>: \<open>b\<close> when \<open>a\<close> is \<open>null\<close> or \<open>undefined\<close>.\<close>

definition nullish :: "jsvalue \<Rightarrow> jsvalue \<Rightarrow> jsvalue" where
  "nullish a b = (if a = JUndefined \<or> a = JNull then b else a)"

text \<open>
  The object literal \<open>{ ...base, ...body }\<close>: every own property of \<open>body\<close>, in its
  order, is written over \<open>base\<close>; a key that is already there keeps its place and takes the
  new value (also when the new value is \<open>undefined\<close>), a new key goes to the end. (Keys
  that are array indices would be ordered first; a \<open>WireMessage\<close> has none.)
\<close>

definition spread :: "jsobject \<Rightarrow> jsobject \<Rightarrow> jsobject" where
  "spread base body = foldl (\<lambda>acc (k, v). AList.update k v acc) base body"

text \<open>
  \<open>JSON.stringify\<close>: at every depth a property whose value is \<open>undefined\<close> is left
  out of its object, and \<open>undefined\<close> in an array is written as \<open>null\<close>. The
  serialised text of an object is kept as the list of the members it has, in order.
\<close>

fun serialise :: "jsvalue \<Rightarrow> jsvalue" where
  "serialise (JArray xs) = JArray (map (\<lambda>v. if v = JUndefined then JNull else serialise v) xs)"
| "serialise (JObject ps) =
     JObject (map (\<lambda>(k, v). (k, serialise v)) (filter (\<lambda>(k, v). v \<noteq> JUndefined) ps))"
| "serialise v = v"

definition JSON_stringify :: "jsobject \<Rightarrow> jsobject" where
  "JSON_stringify obj =
     map (\<lambda>(k, v). (k, serialise v)) (filter (\<lambda>(k, v). v \<noteq> JUndefined) obj)"

subsection \<open>Component state, refs and the STOMP transport\<close>

datatype Status = Disconnected | Connecting | Connected

datatype Tab = TabRoom | TabGlobal | TabLogs

text \<open>
  The values of one render of \<open>Home\<close> that the handlers close over. A handler reads the
  component state only through the render it was created in; it writes through the
  setters and reads and writes the two refs directly.
\<close>

record render =
  rWsUrl :: string
  rUserId :: string
  rUsername :: string
  rRoomId :: string
  rStatus :: Status

text \<open>
  A \<open>Client\<close> object of the STOMP library, as far as the console uses it: the
  configuration it was built with (the \<open>onConnect\<close> callback is the closure over the
  render that called \<open>connectAndJoin\<close>), and the two flags the library keeps.
\<close>

record client =
  reconnectDelay :: nat
  webSocketUrl :: string
  onConnectRender :: render
  isActive :: bool
  isConnected :: bool

text \<open>What the console asks of the transport, in the order it asks.\<close>

datatype effect =
    Activate nat
  | Deactivate nat
  | Subscribe nat string nat
  | Unsubscribe nat
  | Publish nat string jsobject

record LogEntry =
  content :: jsvalue
  logRoomId :: jsvalue
  timestamp :: jsvalue

record home =
  wsUrl :: string
  userId :: string
  username :: string
  roomId :: string
  status :: Status
  presence :: "jsvalue option"
  onlineUsers :: jsvalue
  logs :: "LogEntry list"
  stats :: "jsvalue option"
  error :: "string option"
  lastPing :: "string option"
  nowTs :: int
  activeTab :: Tab
  clientRef :: "nat option"
  roomSubscriptionRef :: "nat option"
  clients :: "client list"
  nextSubscription :: nat
  wire :: "effect list"

definition current_render :: "home \<Rightarrow> render" where
  "current_render s =
     \<lparr>rWsUrl = wsUrl s, rUserId = userId s, rUsername = username s,
      rRoomId = roomId s, rStatus = status s\<rparr>"

text \<open>The renders that the clients built so far have closed over, in the order built.\<close>

definition renders :: "home \<Rightarrow> render list" where
  "renders s = map onConnectRender (clients s)"

text \<open>The getter \<open>client.connected\<close> of the client object at address \<open>c\<close>.\<close>

definition client_connected :: "home \<Rightarrow> nat \<Rightarrow> bool" where
  "client_connected s c = (c < length (clients s) \<and> isConnected (clients s ! c))"

definition emit :: "effect \<Rightarrow> home \<Rightarrow> home" where
  "emit e s = s\<lparr>wire := wire s @ [e]\<rparr>"

text \<open>
  An exception that ends a handler. A handler that can throw returns the exception, if
  one was thrown, and the state it leaves behind.
\<close>

datatype thrown = TypeError

definition and_then ::
  "thrown option \<times> home \<Rightarrow> (home \<Rightarrow> thrown option \<times> home) \<Rightarrow> thrown option \<times> home" where
  "and_then res f = (case res of (Some e, s) \<Rightarrow> (Some e, s) | (None, s) \<Rightarrow> f s)"

text \<open>
  \<open>client.subscribe(destination, callback)\<close>: on a client that has no STOMP connection
  the library throws a \<open>TypeError\<close>; otherwise it returns a new subscription.
\<close>

definition subscribe :: "nat \<Rightarrow> string \<Rightarrow> home \<Rightarrow> thrown + nat \<times> home" where
  "subscribe c destination s =
     (if \<not> client_connected s c then Inl TypeError
      else Inr (nextSubscription s,
                emit (Subscribe c destination (nextSubscription s))
                  (s\<lparr>nextSubscription := Suc (nextSubscription s)\<rparr>)))"

text \<open>A call of \<open>client.subscribe\<close> whose result is dropped.\<close>

definition subscribe_only :: "nat \<Rightarrow> string \<Rightarrow> home \<Rightarrow> thrown option \<times> home" where
  "subscribe_only c destination s =
     (case subscribe c destination s of
        Inl e \<Rightarrow> (Some e, s)
      | Inr (sub, s') \<Rightarrow> (None, s'))"

definition unsubscribe :: "nat \<Rightarrow> home \<Rightarrow> home" where
  "unsubscribe sub s = emit (Unsubscribe sub) s"

definition publish :: "nat \<Rightarrow> string \<Rightarrow> jsobject \<Rightarrow> home \<Rightarrow> home" where
  "publish c destination body s = emit (Publish c destination body) s"

definition set_client_flags :: "nat \<Rightarrow> bool \<Rightarrow> bool \<Rightarrow> home \<Rightarrow> home" where
  "set_client_flags c a k s =
     (if c < length (clients s)
      then s\<lparr>clients := (clients s)[c := (clients s ! c)\<lparr>isActive := a, isConnected := k\<rparr>]\<rparr>
      else s)"

definition activate :: "nat \<Rightarrow> home \<Rightarrow> home" where
  "activate c s = emit (Activate c) (set_client_flags c True False s)"

definition deactivate :: "nat \<Rightarrow> home \<Rightarrow> home" where
  "deactivate c s = emit (Deactivate c) (set_client_flags c False False s)"

subsection \<open>The handlers\<close>

text \<open>
  \<open>addLog\<close>: the new entry first, then the previous ones, cut to 30. The clock reading
  \<open>new Date().toISOString()\<close> is the argument \<open>now\<close>.
\<close>

definition log_entry :: "string \<Rightarrow> LogEntry \<Rightarrow> LogEntry" where
  "log_entry now entry =
     \<lparr>content = content entry, logRoomId = logRoomId entry,
      timestamp = nullish (timestamp entry) (JString now)\<rparr>"

definition addLog :: "string \<Rightarrow> LogEntry \<Rightarrow> home \<Rightarrow> home" where
  "addLog now entry s = s\<lparr>logs := take 30 (log_entry now entry # logs s)\<rparr>"

definition disconnect :: "home \<Rightarrow> home" where
  "disconnect s =
     (let s1 = (case roomSubscriptionRef s of None \<Rightarrow> s | Some sub \<Rightarrow> unsubscribe sub s);
          s2 = s1\<lparr>roomSubscriptionRef := None\<rparr>;
          s3 = (case clientRef s2 of None \<Rightarrow> s2 | Some c \<Rightarrow> deactivate c s2);
          s4 = s3\<lparr>clientRef := None\<rparr>
      in s4\<lparr>status := Disconnected, presence := None\<rparr>)"

definition subscribeCoreRoutes :: "nat \<Rightarrow> home \<Rightarrow> thrown option \<times> home" where
  "subscribeCoreRoutes c s =
     and_then (subscribe_only c ''/user/queue/room-presence'' s) (\<lambda>s1.
     and_then (subscribe_only c ''/user/queue/online-users'' s1) (\<lambda>s2.
     subscribe_only c ''/user/queue/system-stats'' s2))"

text \<open>
  \<open>subscribeRoom\<close>: the old subscription is closed before \<open>client.subscribe\<close> is
  called; if that call throws, the ref still holds the closed subscription.
\<close>

definition subscribeRoom :: "nat \<Rightarrow> string \<Rightarrow> home \<Rightarrow> thrown option \<times> home" where
  "subscribeRoom c room s =
     (let s1 = (case roomSubscriptionRef s of None \<Rightarrow> s | Some sub \<Rightarrow> unsubscribe sub s)
      in case subscribe c (''/topic/room/'' @ room) s1 of
           Inl e \<Rightarrow> (Some e, s1)
         | Inr (sub', s2) \<Rightarrow> (None, s2\<lparr>roomSubscriptionRef := Some sub'\<rparr>))"

definition message_defaults :: "render \<Rightarrow> jsobject" where
  "message_defaults r =
     [(''roomId'', JString (rRoomId r)),
      (''userId'', JString (rUserId r)),
      (''username'', JString (rUsername r))]"

definition sendMessage :: "render \<Rightarrow> string \<Rightarrow> jsobject \<Rightarrow> home \<Rightarrow> home" where
  "sendMessage r destination body s =
     (case clientRef s of
        None \<Rightarrow> s\<lparr>error := Some ''Connect first to send messages.''\<rparr>
      | Some c \<Rightarrow>
          if \<not> client_connected s c
          then s\<lparr>error := Some ''Connect first to send messages.''\<rparr>
          else publish c destination (JSON_stringify (spread (message_defaults r) body)) s)"

definition requestPresence :: "render \<Rightarrow> home \<Rightarrow> home" where
  "requestPresence r s =
     sendMessage r ''/app/room/presence'' [(''type'', JString ''ROOM_PRESENCE'')] s"

definition requestOnline :: "render \<Rightarrow> home \<Rightarrow> home" where
  "requestOnline r s =
     sendMessage r ''/app/users/online'' [(''type'', JString ''ONLINE_USERS'')] s"

definition requestStats :: "render \<Rightarrow> home \<Rightarrow> home" where
  "requestStats r s =
     sendMessage r ''/app/system/stats'' [(''type'', JString ''SYSTEM'')] s"

text \<open>
  The \<open>onConnect\<close> callback that \<open>connectAndJoin\<close> gives to the client \<open>c\<close>. It
  closes over the render \<open>r\<close> in which \<open>connectAndJoin\<close> ran: its \<open>roomId\<close>, and the
  \<open>sendMessage\<close>, \<open>requestPresence\<close>, \<open>requestOnline\<close> and \<open>requestStats\<close> of that
  render.
\<close>

definition onConnect :: "render \<Rightarrow> nat \<Rightarrow> string \<Rightarrow> home \<Rightarrow> thrown option \<times> home" where
  "onConnect r c now s =
     (let s1 = s\<lparr>status := Connected\<rparr>;
          s2 = s1\<lparr>error := None\<rparr>
      in and_then (subscribeCoreRoutes c s2) (\<lambda>s3.
         and_then (subscribeRoom c (rRoomId r) s3) (\<lambda>s4.
           let s5 = sendMessage r ''/app/join'' [(''type'', JString ''JOIN'')] s4;
               s6 = requestPresence r s5;
               s7 = requestOnline r s6;
               s8 = requestStats r s7
           in (None,
               addLog now
                 \<lparr>content = JString (''Joined room '' @ rRoomId r),
                  logRoomId = JString (rRoomId r), timestamp = JUndefined\<rparr> s8))))"

definition onStompError :: "string option \<Rightarrow> home \<Rightarrow> home" where
  "onStompError header s =
     (let s1 = s\<lparr>error := Some (case header of None \<Rightarrow> ''Broker error'' | Some m \<Rightarrow> m)\<rparr>
      in s1\<lparr>status := Disconnected\<rparr>)"

definition onWebSocketError :: "home \<Rightarrow> home" where
  "onWebSocketError s =
     (let s1 = s\<lparr>error := Some ''WebSocket connection failed''\<rparr>
      in s1\<lparr>status := Disconnected\<rparr>)"

definition connectAndJoin :: "render \<Rightarrow> home \<Rightarrow> home" where
  "connectAndJoin r s =
     (if rStatus r = Connecting then s
      else
        let s1 = disconnect s;
            s2 = s1\<lparr>error := None\<rparr>;
            s3 = s2\<lparr>status := Connecting\<rparr>;
            c = length (clients s3);
            s4 = s3\<lparr>clients := clients s3 @
                   [\<lparr>reconnectDelay = 5000, webSocketUrl = rWsUrl r, onConnectRender = r,
                     isActive = False, isConnected = False\<rparr>]\<rparr>;
            s5 = activate c s4
        in s5\<lparr>clientRef := Some c\<rparr>)"

definition sendPing :: "render \<Rightarrow> string \<Rightarrow> home \<Rightarrow> home" where
  "sendPing r now s =
     (let s1 = sendMessage r ''/app/ping'' [(''type'', JString ''PING'')] s
      in s1\<lparr>lastPing := Some now\<rparr>)"

definition leaveRoom :: "render \<Rightarrow> string \<Rightarrow> home \<Rightarrow> home" where
  "leaveRoom r now s =
     (let s1 = sendMessage r ''/app/leave'' [(''type'', JString ''LEAVE'')] s;
          s2 = s1\<lparr>presence := None\<rparr>
      in addLog now
           \<lparr>content = JString (''Left room '' @ rRoomId r),
            logRoomId = JUndefined, timestamp = JUndefined\<rparr> s2)"

text \<open>
  \<open>switchRoom\<close>. The guard reads the status of the render, not the client. The non-null
  assertion \<open>clientRef.current!\<close> checks nothing at run time: with an empty ref,
  \<open>subscribeRoom\<close> closes the old subscription and the call \<open>client.subscribe\<close> on
  \<open>null\<close> throws a \<open>TypeError\<close>. With a client that has lost its connection the same
  happens inside the library. Either exception ends the handler.
\<close>

definition switchRoom :: "render \<Rightarrow> string \<Rightarrow> home \<Rightarrow> thrown option \<times> home" where
  "switchRoom r now s =
     (if rStatus r \<noteq> Connected
      then (None, s\<lparr>error := Some ''Connect first, then switch rooms.''\<rparr>)
      else
        case clientRef s of
          None \<Rightarrow>
            (Some TypeError,
             case roomSubscriptionRef s of None \<Rightarrow> s | Some sub \<Rightarrow> unsubscribe sub s)
        | Some c \<Rightarrow>
            and_then (subscribeRoom c (rRoomId r) s) (\<lambda>s1.
              let s2 = sendMessage r ''/app/join'' [(''type'', JString ''JOIN'')] s1;
                  s3 = requestPresence r s2
              in (None,
                  addLog now
                    \<lparr>content = JString (''Moved to '' @ rRoomId r),
                     logRoomId = JUndefined, timestamp = JUndefined\<rparr> s3)))"

text \<open>The callbacks of the four subscriptions, on the parsed body of a message.\<close>

definition onRoomPresenceQueue :: "jsobject \<Rightarrow> home \<Rightarrow> home" where
  "onRoomPresenceQueue payload s =
     (if truthy (getProp payload ''data'') then s\<lparr>presence := Some (getProp payload ''data'')\<rparr>
      else s)"

definition onOnlineUsersQueue :: "jsobject \<Rightarrow> home \<Rightarrow> home" where
  "onOnlineUsersQueue payload s =
     (if isArray (getProp payload ''data'') then s\<lparr>onlineUsers := getProp payload ''data''\<rparr>
      else s)"

definition onSystemStatsQueue :: "jsobject \<Rightarrow> home \<Rightarrow> home" where
  "onSystemStatsQueue payload s = s\<lparr>stats := Some (getProp payload ''data'')\<rparr>"

definition onRoomTopic :: "string \<Rightarrow> jsobject \<Rightarrow> home \<Rightarrow> home" where
  "onRoomTopic now payload s =
     (let s1 = (if getProp payload ''type'' = JString ''ROOM_PRESENCE'' \<and> truthy (getProp payload ''data'')
                then s\<lparr>presence := Some (getProp payload ''data'')\<rparr> else s)
      in if truthy (getProp payload ''content'')
         then addLog now
                \<lparr>content = getProp payload ''content'', logRoomId = getProp payload ''roomId'',
                 timestamp = getProp payload ''timestamp''\<rparr> s1
         else s1)"


subsection \<open>Runs of the console\<close>

text \<open>
  What can happen to the mounted component: the user's input (a handler runs in the latest
  render), the calls of the handlers that no button of this version is wired to, and what the
  STOMP library does with a client: it reports a connection or an error (the callbacks run
  in the render they were created in), or it loses the socket, for which the page gives it
  no callback. No event is guarded by what the page shows at the time, so the runs below
  include every run of the real page.
\<close>

datatype event =
    ChangeUsername string
  | ChangeRoomId string
  | SelectTab Tab
  | ClockTick int
  | ClickConnect
  | ClickDisconnect
  | ClickPing string
  | CallRequestPresence
  | CallRequestOnline
  | CallRequestStats
  | CallLeaveRoom string
  | CallSwitchRoom string
  | StompConnected nat string
  | StompErrorFrame nat "string option"
  | WebSocketFailed nat
  | ConnectionLost nat
  | RoomPresenceReply jsobject
  | OnlineUsersReply jsobject
  | SystemStatsReply jsobject
  | RoomTopicMessage string jsobject

fun step :: "event \<Rightarrow> home \<Rightarrow> home" where
  "step (ChangeUsername v) s = s\<lparr>username := v\<rparr>"
| "step (ChangeRoomId v) s = s\<lparr>roomId := v\<rparr>"
| "step (SelectTab t) s = s\<lparr>activeTab := t\<rparr>"
| "step (ClockTick t) s = s\<lparr>nowTs := t\<rparr>"
| "step ClickConnect s = connectAndJoin (current_render s) s"
| "step ClickDisconnect s = disconnect s"
| "step (ClickPing now) s = sendPing (current_render s) now s"
| "step CallRequestPresence s = requestPresence (current_render s) s"
| "step CallRequestOnline s = requestOnline (current_render s) s"
| "step CallRequestStats s = requestStats (current_render s) s"
| "step (CallLeaveRoom now) s = leaveRoom (current_render s) now s"
| "step (CallSwitchRoom now) s = snd (switchRoom (current_render s) now s)"
| "step (StompConnected c now) s =
     (if c < length (clients s) \<and> isActive (clients s ! c)
      then snd (onConnect (onConnectRender (clients s ! c)) c now
                  (set_client_flags c True True s))
      else s)"
| "step (StompErrorFrame c header) s =
     (if c < length (clients s) then onStompError header s else s)"
| "step (WebSocketFailed c) s =
     (if c < length (clients s) then onWebSocketError s else s)"
| "step (ConnectionLost c) s =
     (if c < length (clients s) \<and> isActive (clients s ! c)
      then set_client_flags c True False s else s)"
| "step (RoomPresenceReply payload) s = onRoomPresenceQueue payload s"
| "step (OnlineUsersReply payload) s = onOnlineUsersQueue payload s"
| "step (SystemStatsReply payload) s = onSystemStatsQueue payload s"
| "step (RoomTopicMessage now payload) s = onRoomTopic now payload s"

definition run :: "event list \<Rightarrow> home \<Rightarrow> home" where
  "run evs s = foldl (\<lambda>st ev. step ev st) s evs"

text \<open>
  The state of the first render: \<open>defaultWs\<close> (the environment's URL or the built-in one)
  and the result of \<open>randomId()\<close> are given.
\<close>

definition initial :: "string \<Rightarrow> string \<Rightarrow> home" where
  "initial defaultWs randomId =
     \<lparr>wsUrl = defaultWs, userId = randomId, username = ''Thomas Abas'',
      roomId = ''mission-control'', status = Disconnected, presence = None,
      onlineUsers = JArray [], logs = [], stats = None, error = None, lastPing = None,
      nowTs = 0, activeTab = TabRoom, clientRef = None, roomSubscriptionRef = None,
      clients = [], nextSubscription = 0, wire = []\<rparr>"

text \<open>The six destinations the console publishes to, and the fields of a frame.\<close>

definition app_destinations :: "string list" where
  "app_destinations =
     [''/app/join'', ''/app/leave'', ''/app/ping'', ''/app/room/presence'',
      ''/app/users/online'', ''/app/system/stats'']"

definition has_field :: "jsobject \<Rightarrow> string \<Rightarrow> bool" where
  "has_field body k = (k \<in> set (map fst body))"

fun well_addressed :: "effect \<Rightarrow> bool" where
  "well_addressed (Publish c destination body) =
     (destination \<in> set app_destinations \<and>
      has_field body ''userId'' \<and> has_field body ''username'' \<and>
      has_field body ''roomId'' \<and> has_field body ''type'')"
| "well_addressed e = True"

fun carries_userId :: "string \<Rightarrow> effect \<Rightarrow> bool" where
  "carries_userId uid (Publish c destination body) =
     (map_of body ''userId'' = Some (JString uid))"
| "carries_userId uid e = True"

text \<open>
  What every run keeps: the \<open>userId\<close> drawn at the first render, in the state and in
  every render a client has closed over; the reconnect delay of every client built; frames
  addressed and filled as above; at most 30 log entries.
\<close>

definition console_inv :: "string \<Rightarrow> home \<Rightarrow> bool" where
  "console_inv uid s =
     (userId s = uid \<and>
      list_all (\<lambda>cl. rUserId (onConnectRender cl) = uid \<and> reconnectDelay cl = 5000) (clients s) \<and>
      list_all (\<lambda>e. well_addressed e \<and> carries_userId uid e) (wire s) \<and>
      length (logs s) \<le> 30)"

text \<open>The body that \<open>sendMessage\<close> serialises for a caller that passes \<open>{ type: t }\<close>.\<close>

definition wire_message :: "render \<Rightarrow> string \<Rightarrow> jsobject" where
  "wire_message r t = message_defaults r @ [(''type'', JString t)]"

text \<open>A sequence of \<open>addLog\<close> calls, each with its clock reading.\<close>

definition addLogs :: "(string \<times> LogEntry) list \<Rightarrow> home \<Rightarrow> home" where
  "addLogs calls s = foldl (\<lambda>st (now, entry). addLog now entry st) s calls"

section \<open>The presence engine behind the console\<close>

text \<open>
  The console only talks to the engine; the engine's code is not part of this source tree.
  The definitions of this section follow the specification (sections 3, 4.1, 4.2, 4.4 and 7):
  each one says which sentences it is taken from.
\<close>

text \<open>
  Modelled from the spec: the \<open>Connection\<close> of the Connection Registry (section 3):
  claimed \<open>userId\<close> and \<open>username\<close>, current \<open>roomId\<close> (unset until JOIN),
  \<open>lastSeen\<close> timestamp, \<open>online\<close> flag.
\<close>

record Connection =
  claimedUserId :: "string option"
  claimedUsername :: "string option"
  currentRoomId :: "string option"
  lastSeen :: nat
  online :: bool

text \<open>
  Modelled from the spec: the owned \<open>PresenceState\<close> (section 9) that holds the Registry
  (connection identifier to \<open>Connection\<close>) and the Room Directory (room identifier to its
  set of member \<open>userId\<close>s). A room is created by its first JOIN and destroyed when its
  membership reaches zero (section 3), so a room exists exactly when it has a member.
\<close>

record PresenceState =
  registry :: "nat \<Rightarrow> Connection option"
  directory :: "string \<Rightarrow> string set"

record Room =
  roomName :: string
  members :: "string set"

text \<open>
  Modelled from the spec: the Registry contract (section 4.1). \<open>register\<close> creates the
  entry online and in no room; \<open>identify\<close> binds the claimed identity, and binding again
  changes the display name only; \<open>touch\<close> updates \<open>lastSeen\<close>; \<open>unregister\<close> marks
  offline and returns the last known room, and does nothing for an unknown connection.
\<close>

definition register :: "nat \<Rightarrow> nat \<Rightarrow> PresenceState \<Rightarrow> PresenceState" where
  "register c now st =
     st\<lparr>registry := (registry st)(c \<mapsto>
        \<lparr>claimedUserId = None, claimedUsername = None, currentRoomId = None,
         lastSeen = now, online = True\<rparr>)\<rparr>"

definition identify :: "nat \<Rightarrow> string \<Rightarrow> string \<Rightarrow> PresenceState \<Rightarrow> PresenceState" where
  "identify c uid uname st =
     (case registry st c of
        None \<Rightarrow> st
      | Some conn \<Rightarrow>
          st\<lparr>registry := (registry st)(c \<mapsto>
            conn\<lparr>claimedUserId := (case claimedUserId conn of None \<Rightarrow> Some uid | Some u \<Rightarrow> Some u),
                 claimedUsername := Some uname\<rparr>)\<rparr>)"

definition touch :: "nat \<Rightarrow> nat \<Rightarrow> PresenceState \<Rightarrow> PresenceState" where
  "touch c now st =
     (case registry st c of
        None \<Rightarrow> st
      | Some conn \<Rightarrow> st\<lparr>registry := (registry st)(c \<mapsto> conn\<lparr>lastSeen := now\<rparr>)\<rparr>)"

definition unregister :: "nat \<Rightarrow> PresenceState \<Rightarrow> PresenceState \<times> string option" where
  "unregister c st =
     (case registry st c of
        None \<Rightarrow> (st, None)
      | Some conn \<Rightarrow>
          (st\<lparr>registry := (registry st)(c \<mapsto> conn\<lparr>online := False\<rparr>)\<rparr>, currentRoomId conn))"

text \<open>
  Modelled from the spec: the Room Directory contract (section 4.2). \<open>join\<close> adds the
  user, creating the room if absent, and returns the updated room; \<open>leave\<close> removes the
  user and returns the updated room, or \<open>None\<close> when the room does not exist, which is
  not an error; \<open>snapshot\<close> only reads.
\<close>

definition snapshot :: "string \<Rightarrow> PresenceState \<Rightarrow> Room" where
  "snapshot r st = \<lparr>roomName = r, members = directory st r\<rparr>"

definition join :: "string \<Rightarrow> string \<Rightarrow> PresenceState \<Rightarrow> PresenceState \<times> Room" where
  "join r u st =
     (let st' = st\<lparr>directory := (directory st)(r := insert u (directory st r))\<rparr>
      in (st', snapshot r st'))"

definition leave :: "string \<Rightarrow> string \<Rightarrow> PresenceState \<Rightarrow> PresenceState \<times> Room option" where
  "leave r u st =
     (if directory st r = {} then (st, None)
      else
        let st' = st\<lparr>directory := (directory st)(r := directory st r - {u})\<rparr>
        in (st', Some (snapshot r st')))"

text \<open>
  Modelled from the spec: the error taxonomy (section 7), what the engine sends out (a
  \<open>ROOM_PRESENCE\<close> broadcast to a room's topic, a \<open>SYSTEM\<close> error reply to one
  connection), and the requests of the per-connection state machine (section 4.4).
\<close>

datatype fault = ProtocolError | UnknownRoomError | TransportError

datatype notice =
    RoomPresenceBroadcast Room
  | SystemErrorReply nat fault

datatype request = JoinRequest string | LeaveRequest string | PingRequest

text \<open>
  Modelled from the spec: writing the current \<open>roomId\<close> of a connection (section 3), as
  the transitions of section 4.4 do.
\<close>

definition set_room :: "nat \<Rightarrow> string option \<Rightarrow> PresenceState \<Rightarrow> PresenceState" where
  "set_room c r st =
     (case registry st c of
        None \<Rightarrow> st
      | Some conn \<Rightarrow> st\<lparr>registry := (registry st)(c \<mapsto> conn\<lparr>currentRoomId := r\<rparr>)\<rparr>)"

text \<open>
  Modelled from the spec: the Session Lifecycle transitions (section 4.4), for one inbound
  request of connection \<open>c\<close> received at time \<open>now\<close>. A connection that the Registry does
  not know is closed: nothing is done for it. Every inbound frame touches the connection
  (section 4.1). \<open>JOIN(room)\<close> leaves the room the connection is in, if it is another one,
  joins \<open>room\<close> and broadcasts; it needs the claimed \<open>userId\<close>, and a frame without one is
  dropped with a \<open>SYSTEM\<close> error reply. \<open>LEAVE\<close> of the room the connection is in
  leaves it and broadcasts; any other \<open>LEAVE\<close> is a no-op and not an error. \<open>PING\<close>
  refreshes \<open>lastSeen\<close> and broadcasts nothing.
\<close>

definition handle :: "nat \<Rightarrow> request \<Rightarrow> nat \<Rightarrow> PresenceState \<Rightarrow> PresenceState \<times> notice list" where
  "handle c req now st =
     (case registry st c of
        None \<Rightarrow> (st, [])
      | Some conn \<Rightarrow>
          let st1 = touch c now st in
          (case req of
             PingRequest \<Rightarrow> (st1, [])
           | JoinRequest r \<Rightarrow>
               (case claimedUserId conn of
                  None \<Rightarrow> (st1, [SystemErrorReply c ProtocolError])
                | Some u \<Rightarrow>
                    let (st2, left) =
                          (case currentRoomId conn of
                             None \<Rightarrow> (st1, [])
                           | Some r0 \<Rightarrow>
                               if r0 = r then (st1, [])
                               else (fst (leave r0 u st1),
                                     [RoomPresenceBroadcast (snapshot r0 (fst (leave r0 u st1)))]));
                        (st3, room) = join r u st2
                    in (set_room c (Some r) st3, left @ [RoomPresenceBroadcast room]))
           | LeaveRequest r \<Rightarrow>
               if currentRoomId conn \<noteq> Some r then (st1, [])
               else
                 (case claimedUserId conn of
                    None \<Rightarrow> (st1, [SystemErrorReply c ProtocolError])
                  | Some u \<Rightarrow>
                      let st2 = fst (leave r u st1)
                      in (set_room c None st2, [RoomPresenceBroadcast (snapshot r st2)]))))"

text \<open>
  Modelled from the spec: a sequence of JOIN/LEAVE requests of a single connection (section
  8), each with its time of arrival, handled one after the other.
\<close>

definition handle_all :: "nat \<Rightarrow> (request \<times> nat) list \<Rightarrow> PresenceState \<Rightarrow> PresenceState" where
  "handle_all c reqs st = foldl (\<lambda>acc (req, now). fst (handle c req now acc)) st reqs"

text \<open>
  Modelled from the spec: transport close or heartbeat timeout (sections 4.4 and 7): the
  current room, if any, is left and the room is told; the Registry entry is purged. The
  engine does nothing else: re-establishing the stream is the client's business.
\<close>

definition transport_close :: "nat \<Rightarrow> PresenceState \<Rightarrow> PresenceState \<times> notice list" where
  "transport_close c st =
     (case registry st c of
        None \<Rightarrow> (st, [])
      | Some conn \<Rightarrow>
          let (st1, room) = unregister c st;
              (st2, out) =
                (case (room, claimedUserId conn) of
                   (Some r, Some u) \<Rightarrow>
                     (fst (leave r u st1), [RoomPresenceBroadcast (snapshot r (fst (leave r u st1)))])
                 | _ \<Rightarrow> (st1, []))
          in (st2\<lparr>registry := (registry st2)(c := None)\<rparr>, out))"

subsection \<open>Example states\<close>

definition example_render :: render where
  "example_render =
     \<lparr>rWsUrl = ''http://localhost:8080/ws-presence'', rUserId = ''a1b2c3d4'',
      rUsername = ''Thomas Abas'', rRoomId = ''ops'', rStatus = Disconnected\<rparr>"

definition example_connected :: home where
  "example_connected =
     (initial ''http://localhost:8080/ws-presence'' ''a1b2c3d4'')
       \<lparr>roomId := ''ops'', status := Connecting, clientRef := Some 0,
        clients := [\<lparr>reconnectDelay = 5000, webSocketUrl = ''http://localhost:8080/ws-presence'',
                     onConnectRender = example_render, isActive = True, isConnected = True\<rparr>]\<rparr>"

definition example_joined :: home where
  "example_joined =
     example_connected\<lparr>status := Connected, roomId := ''eng'', roomSubscriptionRef := Some 3,
       nextSubscription := 4\<rparr>"

definition example_run :: "event list" where
  "example_run = [ClickConnect, StompConnected 0 ''2026-01-01T00:00:00.000Z'']"

text \<open>
  Modelled from the spec: the membership invariant of section 3, for connection \<open>c\<close> with
  the claimed user \<open>u\<close>: the user is in no room but the one the Registry entry names.
\<close>

definition in_one_room :: "nat \<Rightarrow> string \<Rightarrow> PresenceState \<Rightarrow> bool" where
  "in_one_room c u st =
     (\<exists>conn. registry st c = Some conn \<and> claimedUserId conn = Some u \<and>
        (\<forall>r. u \<in> directory st r \<longrightarrow> currentRoomId conn = Some r))"

definition empty_state :: PresenceState where
  "empty_state = \<lparr>registry = Map.empty, directory = (\<lambda>r. {})\<rparr>"

definition alice_connected :: PresenceState where
  "alice_connected = identify 7 ''alice'' ''Alice'' (register 7 0 empty_state)"

definition alice_in_ops :: PresenceState where
  "alice_in_ops = fst (handle 7 (JoinRequest ''ops'') 10 alice_connected)"

text \<open>
  Two runs from the first render: the room field is edited while the client is still
  connecting; and the socket of the connected client is lost.
\<close>

definition edited_while_connecting :: home where
  "edited_while_connecting =
     run [ClickConnect, ChangeRoomId ''eng'', StompConnected 0 ''2026-01-01T00:00:00.000Z'']
       (initial ''ws'' ''a1b2c3d4'')"



section \<open>Properties of the console\<close>

subsection \<open>Objects\<close>

lemma spread_type:
  "spread (message_defaults r) [(''type'', v)] = message_defaults r @ [(''type'', v)]"
  by (simp add: spread_def message_defaults_def)

lemma stringify_typed:
  "JSON_stringify (message_defaults r @ [(''type'', JString t)]) = wire_message r t"
  by (simp add: JSON_stringify_def message_defaults_def wire_message_def)

lemma map_of_spread:
  "map_of (spread base body) = map_of base ++ map_of (rev body)"
  unfolding spread_def
proof (induction body arbitrary: base)
  case Nil
  show ?case by simp
next
  case (Cons p body)
  obtain k v where p: "p = (k, v)" by (cases p)
  have "map_of (foldl (\<lambda>acc (k, v). AList.update k v acc) (AList.update k v base) body)
        = map_of (AList.update k v base) ++ map_of (rev body)"
    by (rule Cons.IH)
  then show ?case
    by (simp add: p update_conv' map_add_upd_left fun_eq_iff map_add_def split: option.splits)
qed

lemma distinct_spread:
  "distinct (map fst base) \<Longrightarrow> distinct (map fst (spread base body))"
  unfolding spread_def
  by (induction body arbitrary: base) (auto simp: distinct_update)

lemma map_of_stringify:
  "distinct (map fst obj) \<Longrightarrow>
   map_of (JSON_stringify obj) k =
     (case map_of obj k of
        None \<Rightarrow> None
      | Some v \<Rightarrow> if v = JUndefined then None else Some (serialise v))"
  unfolding JSON_stringify_def
proof (induction obj)
  case Nil
  show ?case by simp
next
  case (Cons p obj)
  obtain k' v where p: "p = (k', v)" by (cases p)
  from Cons.prems p have notin: "k' \<notin> fst ` set obj" and d: "distinct (map fst obj)" by auto
  have absent: "map_of (map (\<lambda>(k, v). (k, serialise v))
      (filter (\<lambda>(k, v). v \<noteq> JUndefined) obj)) k' = None"
    using notin by (force simp: map_of_eq_None_iff image_iff)
  show ?case
    using Cons.IH [OF d] absent
    by (cases "k = k'") (auto simp: p split: option.splits)
qed

subsection \<open>The primitive steps\<close>

lemma client_connected_upd [simp]:
  "client_connected (s\<lparr>wire := w\<rparr>) c = client_connected s c"
  "client_connected (s\<lparr>status := st\<rparr>) c = client_connected s c"
  "client_connected (s\<lparr>error := e\<rparr>) c = client_connected s c"
  "client_connected (s\<lparr>nextSubscription := n\<rparr>) c = client_connected s c"
  "client_connected (s\<lparr>roomSubscriptionRef := rs\<rparr>) c = client_connected s c"
  by (simp_all add: client_connected_def)

lemma subscribe_eq:
  "client_connected s c \<Longrightarrow>
   subscribe c d s =
     Inr (nextSubscription s,
          s\<lparr>nextSubscription := Suc (nextSubscription s),
            wire := wire s @ [Subscribe c d (nextSubscription s)]\<rparr>)"
  by (simp add: subscribe_def emit_def)

lemma subscribe_lost: "\<not> client_connected s c \<Longrightarrow> subscribe c d s = Inl TypeError"
  by (simp add: subscribe_def)

lemma subscribeCoreRoutes_eq:
  "client_connected s c \<Longrightarrow>
   subscribeCoreRoutes c s =
     (None,
      s\<lparr>nextSubscription := nextSubscription s + 3,
        wire := wire s @
          [Subscribe c ''/user/queue/room-presence'' (nextSubscription s),
           Subscribe c ''/user/queue/online-users'' (nextSubscription s + 1),
           Subscribe c ''/user/queue/system-stats'' (nextSubscription s + 2)]\<rparr>)"
  by (simp add: subscribeCoreRoutes_def subscribe_only_def and_then_def subscribe_eq)

lemma subscribeCoreRoutes_lost:
  "\<not> client_connected s c \<Longrightarrow> subscribeCoreRoutes c s = (Some TypeError, s)"
  by (simp add: subscribeCoreRoutes_def subscribe_only_def and_then_def subscribe_lost)

lemma subscribeRoom_eq:
  "client_connected s c \<Longrightarrow>
   subscribeRoom c room s =
     (None,
      s\<lparr>roomSubscriptionRef := Some (nextSubscription s),
        nextSubscription := Suc (nextSubscription s),
        wire := wire s @
          (case roomSubscriptionRef s of None \<Rightarrow> [] | Some sub \<Rightarrow> [Unsubscribe sub]) @
          [Subscribe c (''/topic/room/'' @ room) (nextSubscription s)]\<rparr>)"
  by (simp add: subscribeRoom_def subscribe_eq unsubscribe_def emit_def Let_def
      split: option.splits)

lemma subscribeRoom_lost:
  "\<not> client_connected s c \<Longrightarrow>
   subscribeRoom c room s =
     (Some TypeError,
      case roomSubscriptionRef s of None \<Rightarrow> s | Some sub \<Rightarrow> s\<lparr>wire := wire s @ [Unsubscribe sub]\<rparr>)"
  by (simp add: subscribeRoom_def subscribe_lost unsubscribe_def emit_def Let_def
      split: option.splits)

lemma sendMessage_connected:
  "clientRef s = Some c \<Longrightarrow> client_connected s c \<Longrightarrow>
   sendMessage r d body s =
     s\<lparr>wire := wire s @ [Publish c d (JSON_stringify (spread (message_defaults r) body))]\<rparr>"
  by (simp add: sendMessage_def publish_def emit_def)

lemma sendMessage_refused:
  "clientRef s = None \<or> (\<exists>c. clientRef s = Some c \<and> \<not> client_connected s c) \<Longrightarrow>
   sendMessage r d body s = s\<lparr>error := Some ''Connect first to send messages.''\<rparr>"
  by (auto simp add: sendMessage_def)

lemma sendMessage_typed:
  "clientRef s = Some c \<Longrightarrow> client_connected s c \<Longrightarrow>
   sendMessage r d [(''type'', JString t)] s =
     s\<lparr>wire := wire s @ [Publish c d (wire_message r t)]\<rparr>"
  by (simp add: sendMessage_connected spread_type stringify_typed)

subsection \<open>Connect, switch, send\<close>

lemma onConnect_effects:
  assumes "clientRef s = Some c" and "client_connected s c"
  shows "fst (onConnect r c now s) = None"
    and "status (snd (onConnect r c now s)) = Connected"
    and "wire (snd (onConnect r c now s)) = wire s @
       [Subscribe c ''/user/queue/room-presence'' (nextSubscription s),
        Subscribe c ''/user/queue/online-users'' (nextSubscription s + 1),
        Subscribe c ''/user/queue/system-stats'' (nextSubscription s + 2)] @
       (case roomSubscriptionRef s of None \<Rightarrow> [] | Some sub \<Rightarrow> [Unsubscribe sub]) @
       [Subscribe c (''/topic/room/'' @ rRoomId r) (nextSubscription s + 3),
        Publish c ''/app/join'' (wire_message r ''JOIN''),
        Publish c ''/app/room/presence'' (wire_message r ''ROOM_PRESENCE''),
        Publish c ''/app/users/online'' (wire_message r ''ONLINE_USERS''),
        Publish c ''/app/system/stats'' (wire_message r ''SYSTEM'')]"
  using assms
  by (simp_all add: onConnect_def and_then_def subscribeCoreRoutes_eq subscribeRoom_eq
      requestPresence_def requestOnline_def requestStats_def sendMessage_typed addLog_def Let_def)

lemma onConnect_eq:
  assumes "clientRef s = Some c" and "client_connected s c"
  shows "onConnect r c now s =
     (None,
      s\<lparr>status := Connected, error := None,
        roomSubscriptionRef := Some (nextSubscription s + 3),
        nextSubscription := nextSubscription s + 4,
        logs := take 30
          (\<lparr>content = JString (''Joined room '' @ rRoomId r), logRoomId = JString (rRoomId r),
            timestamp = JString now\<rparr> # logs s),
        wire := wire s @
          [Subscribe c ''/user/queue/room-presence'' (nextSubscription s),
           Subscribe c ''/user/queue/online-users'' (nextSubscription s + 1),
           Subscribe c ''/user/queue/system-stats'' (nextSubscription s + 2)] @
          (case roomSubscriptionRef s of None \<Rightarrow> [] | Some sub \<Rightarrow> [Unsubscribe sub]) @
          [Subscribe c (''/topic/room/'' @ rRoomId r) (nextSubscription s + 3),
           Publish c ''/app/join'' (wire_message r ''JOIN''),
           Publish c ''/app/room/presence'' (wire_message r ''ROOM_PRESENCE''),
           Publish c ''/app/users/online'' (wire_message r ''ONLINE_USERS''),
           Publish c ''/app/system/stats'' (wire_message r ''SYSTEM'')]\<rparr>)"
  using assms
  by (simp add: onConnect_def and_then_def subscribeCoreRoutes_eq subscribeRoom_eq
      requestPresence_def requestOnline_def requestStats_def sendMessage_typed addLog_def
      log_entry_def nullish_def Let_def)

lemma example_connected_facts:
  "clientRef example_connected = Some 0"
  "client_connected example_connected 0"
  "roomSubscriptionRef example_connected = None"
  "nextSubscription example_connected = 0"
  "wire example_connected = []"
  by (simp_all add: example_connected_def initial_def client_connected_def)

lemma example_joined_facts:
  "clientRef example_joined = Some 0"
  "client_connected example_joined 0"
  "roomSubscriptionRef example_joined = Some 3"
  "nextSubscription example_joined = 4"
  "wire example_joined = []"
  by (simp_all add: example_joined_def example_connected_def initial_def client_connected_def)

text \<open>
  \<open>switchRoom\<close> where the status of the render and the client agree: in a connected
  render, with the connected client in \<open>clientRef\<close>, the subscription held in
  \<open>roomSubscriptionRef\<close> is closed first, then the topic of the new room is subscribed,
  then JOIN goes to \<open>/app/join\<close> (and a presence request after it). In a render whose
  status is not connected the handler only sets the error. In no case does it publish to
  \<open>/app/leave\<close>.
\<close>

lemma switchRoom_resubscribes_then_joins:
  "(rStatus r = Connected \<and> clientRef s = Some c \<and> client_connected s c \<longrightarrow>
      fst (switchRoom r now s) = None \<and>
      roomSubscriptionRef (snd (switchRoom r now s)) = Some (nextSubscription s) \<and>
      wire (snd (switchRoom r now s)) = wire s @
        (case roomSubscriptionRef s of None \<Rightarrow> [] | Some old \<Rightarrow> [Unsubscribe old]) @
        [Subscribe c (''/topic/room/'' @ rRoomId r) (nextSubscription s),
         Publish c ''/app/join'' (wire_message r ''JOIN''),
         Publish c ''/app/room/presence'' (wire_message r ''ROOM_PRESENCE'')]) \<and>
   (rStatus r \<noteq> Connected \<longrightarrow>
      switchRoom r now s = (None, s\<lparr>error := Some ''Connect first, then switch rooms.''\<rparr>)) \<and>
   (\<forall>c' body. Publish c' ''/app/leave'' body \<in> set (wire (snd (switchRoom r now s))) \<longrightarrow>
      Publish c' ''/app/leave'' body \<in> set (wire s))"
proof (intro conjI impI allI)
  assume h: "rStatus r = Connected \<and> clientRef s = Some c \<and> client_connected s c"
  then show "fst (switchRoom r now s) = None"
    by (simp add: switchRoom_def and_then_def subscribeRoom_eq Let_def)
  from h show "roomSubscriptionRef (snd (switchRoom r now s)) = Some (nextSubscription s)"
    by (simp add: switchRoom_def and_then_def subscribeRoom_eq requestPresence_def
        sendMessage_typed addLog_def Let_def)
  from h show "wire (snd (switchRoom r now s)) = wire s @
        (case roomSubscriptionRef s of None \<Rightarrow> [] | Some old \<Rightarrow> [Unsubscribe old]) @
        [Subscribe c (''/topic/room/'' @ rRoomId r) (nextSubscription s),
         Publish c ''/app/join'' (wire_message r ''JOIN''),
         Publish c ''/app/room/presence'' (wire_message r ''ROOM_PRESENCE'')]"
    by (simp add: switchRoom_def and_then_def subscribeRoom_eq requestPresence_def
        sendMessage_typed addLog_def Let_def)
next
  assume "rStatus r \<noteq> Connected"
  then show "switchRoom r now s = (None, s\<lparr>error := Some ''Connect first, then switch rooms.''\<rparr>)"
    by (simp add: switchRoom_def)
next
  fix c' body
  assume pub: "Publish c' ''/app/leave'' body \<in> set (wire (snd (switchRoom r now s)))"
  show "Publish c' ''/app/leave'' body \<in> set (wire s)"
  proof (cases "rStatus r = Connected")
    case False
    with pub show ?thesis by (simp add: switchRoom_def)
  next
    case True
    show ?thesis
    proof (cases "clientRef s")
      case None
      with True pub show ?thesis
        by (auto simp: switchRoom_def unsubscribe_def emit_def split: option.splits)
    next
      case (Some c)
      show ?thesis
      proof (cases "client_connected s c")
        case yes: True
        with True Some pub show ?thesis
          by (auto simp: switchRoom_def and_then_def subscribeRoom_eq requestPresence_def
              sendMessage_typed addLog_def Let_def split: option.splits)
      next
        case no: False
        with True Some pub show ?thesis
          by (auto simp: switchRoom_def and_then_def subscribeRoom_lost split: option.splits)
      qed
    qed
  qed
qed

text \<open>
  C10. \<open>sendMessage\<close> with an empty \<open>clientRef\<close>, or with a client that is not
  connected, asks nothing of the transport and changes only the error, to
  ``Connect first to send messages.''; otherwise it changes nothing but the transport, which
  gets exactly one frame: the serialised merge, published to the destination.
\<close>

theorem sendMessage_publishes_only_when_connected:
  "((clientRef s = None \<or> (\<exists>c. clientRef s = Some c \<and> \<not> client_connected s c)) \<longrightarrow>
      sendMessage r d body s = s\<lparr>error := Some ''Connect first to send messages.''\<rparr> \<and>
      wire (sendMessage r d body s) = wire s) \<and>
   (clientRef s = Some c \<and> client_connected s c \<longrightarrow>
      sendMessage r d body s =
        s\<lparr>wire := wire s @ [Publish c d (JSON_stringify (spread (message_defaults r) body))]\<rparr>)"
  by (auto simp: sendMessage_refused sendMessage_connected)

theorem sendMessage_publishes_only_when_connected_witness:
  "clientRef (initial ''ws'' ''a1b2c3d4'') = None \<and>
   sendMessage example_render ''/app/ping'' [(''type'', JString ''PING'')] (initial ''ws'' ''a1b2c3d4'') =
     (initial ''ws'' ''a1b2c3d4'')\<lparr>error := Some ''Connect first to send messages.''\<rparr> \<and>
   clientRef example_joined = Some 0 \<and> client_connected example_joined 0 \<and>
   wire (sendMessage example_render ''/app/ping'' [(''type'', JString ''PING'')] example_joined) =
     [Publish 0 ''/app/ping''
        [(''roomId'', JString ''ops''), (''userId'', JString ''a1b2c3d4''),
         (''username'', JString ''Thomas Abas''), (''type'', JString ''PING'')]]"
  using sendMessage_publishes_only_when_connected
          [of "initial ''ws'' ''a1b2c3d4''" example_render "''/app/ping''" "[(''type'', JString ''PING'')]" 0]
        sendMessage_publishes_only_when_connected
          [of example_joined example_render "''/app/ping''" "[(''type'', JString ''PING'')]" 0]
  by (simp add: example_joined_facts spread_def JSON_stringify_def
      message_defaults_def example_render_def initial_def)


subsection \<open>What every run keeps\<close>

lemma console_inv_upd [simp]:
  "console_inv uid (s\<lparr>wsUrl := a\<rparr>) = console_inv uid s"
  "console_inv uid (s\<lparr>username := a\<rparr>) = console_inv uid s"
  "console_inv uid (s\<lparr>roomId := a\<rparr>) = console_inv uid s"
  "console_inv uid (s\<lparr>status := b\<rparr>) = console_inv uid s"
  "console_inv uid (s\<lparr>presence := p\<rparr>) = console_inv uid s"
  "console_inv uid (s\<lparr>onlineUsers := ou\<rparr>) = console_inv uid s"
  "console_inv uid (s\<lparr>stats := p\<rparr>) = console_inv uid s"
  "console_inv uid (s\<lparr>error := e\<rparr>) = console_inv uid s"
  "console_inv uid (s\<lparr>lastPing := e\<rparr>) = console_inv uid s"
  "console_inv uid (s\<lparr>nowTs := i\<rparr>) = console_inv uid s"
  "console_inv uid (s\<lparr>activeTab := t\<rparr>) = console_inv uid s"
  "console_inv uid (s\<lparr>clientRef := cr\<rparr>) = console_inv uid s"
  "console_inv uid (s\<lparr>roomSubscriptionRef := cr\<rparr>) = console_inv uid s"
  "console_inv uid (s\<lparr>nextSubscription := n\<rparr>) = console_inv uid s"
  by (simp_all add: console_inv_def)

lemma console_inv_emit:
  "console_inv uid (emit e s) = (console_inv uid s \<and> well_addressed e \<and> carries_userId uid e)"
  by (auto simp: console_inv_def emit_def)

lemma console_inv_flags [simp]:
  "console_inv uid (set_client_flags c a k s) = console_inv uid s"
  by (auto simp: console_inv_def set_client_flags_def list_all_length nth_list_update)

lemma console_inv_addLog [simp]:
  "console_inv uid s \<Longrightarrow> console_inv uid (addLog now entry s)"
  by (auto simp: console_inv_def addLog_def)

lemma console_inv_and_then:
  assumes "console_inv uid (snd res)"
    and "\<And>s. console_inv uid s \<Longrightarrow> console_inv uid (snd (f s))"
  shows "console_inv uid (snd (and_then res f))"
proof (cases res)
  case (Pair e s)
  with assms show ?thesis
    by (cases e) (simp_all add: and_then_def)
qed

lemma console_inv_subscribe [simp]:
  "console_inv uid s \<Longrightarrow> console_inv uid (snd (subscribe_only c d s))"
  by (cases "client_connected s c")
    (simp_all add: subscribe_only_def subscribe_def console_inv_emit)

lemma console_inv_unsubscribe [simp]:
  "console_inv uid (unsubscribe sub s) = console_inv uid s"
  by (simp add: unsubscribe_def console_inv_emit)

lemma console_inv_activate [simp]:
  "console_inv uid (activate c s) = console_inv uid s"
  "console_inv uid (deactivate c s) = console_inv uid s"
  by (simp_all add: activate_def deactivate_def console_inv_emit)

lemma wire_message_fields:
  "has_field (wire_message r t) ''userId''" "has_field (wire_message r t) ''username''"
  "has_field (wire_message r t) ''roomId''" "has_field (wire_message r t) ''type''"
  "map_of (wire_message r t) ''userId'' = Some (JString (rUserId r))"
  by (simp_all add: has_field_def wire_message_def message_defaults_def)

lemma console_inv_sendMessage:
  assumes "console_inv uid s" and "rUserId r = uid" and "d \<in> set app_destinations"
  shows "console_inv uid (sendMessage r d [(''type'', JString t)] s)"
proof (cases "\<exists>c. clientRef s = Some c \<and> client_connected s c")
  case True
  then obtain c where c: "clientRef s = Some c" "client_connected s c" by blast
  have "sendMessage r d [(''type'', JString t)] s = emit (Publish c d (wire_message r t)) s"
    using c by (simp add: sendMessage_typed emit_def)
  then show ?thesis
    using assms by (simp add: console_inv_emit wire_message_fields)
next
  case False
  then have "sendMessage r d [(''type'', JString t)] s =
      s\<lparr>error := Some ''Connect first to send messages.''\<rparr>"
    by (intro sendMessage_refused) (cases "clientRef s", auto)
  then show ?thesis using assms by simp
qed

lemma console_inv_disconnect [simp]:
  "console_inv uid (disconnect s) = console_inv uid s"
  by (simp add: disconnect_def Let_def split: option.splits)

lemma console_inv_subscribeCoreRoutes [simp]:
  "console_inv uid s \<Longrightarrow> console_inv uid (snd (subscribeCoreRoutes c s))"
  unfolding subscribeCoreRoutes_def
  by (intro console_inv_and_then console_inv_subscribe)

lemma console_inv_subscribeRoom [simp]:
  "console_inv uid s \<Longrightarrow> console_inv uid (snd (subscribeRoom c room s))"
  by (cases "client_connected s c")
    (simp_all add: subscribeRoom_eq subscribeRoom_lost console_inv_def split: option.splits)

lemma in_app_destinations [simp]:
  "''/app/join'' \<in> set app_destinations" "''/app/leave'' \<in> set app_destinations"
  "''/app/ping'' \<in> set app_destinations" "''/app/room/presence'' \<in> set app_destinations"
  "''/app/users/online'' \<in> set app_destinations" "''/app/system/stats'' \<in> set app_destinations"
  by (simp_all add: app_destinations_def)

lemma console_inv_requests:
  assumes "console_inv uid s" and "rUserId r = uid"
  shows "console_inv uid (requestPresence r s)" "console_inv uid (requestOnline r s)"
    "console_inv uid (requestStats r s)"
  using assms
  by (simp_all add: requestPresence_def requestOnline_def requestStats_def console_inv_sendMessage)

lemma console_inv_onConnect:
  assumes "console_inv uid s" and "rUserId r = uid"
  shows "console_inv uid (snd (onConnect r c now s))"
  unfolding onConnect_def Let_def
proof (intro console_inv_and_then)
  show "console_inv uid (snd (subscribeCoreRoutes c (s\<lparr>status := Connected, error := None\<rparr>)))"
    using assms(1) by simp
next
  fix s3 assume "console_inv uid s3"
  then show "console_inv uid (snd (subscribeRoom c (rRoomId r) s3))" by simp
next
  fix s3 s4 assume "console_inv uid s4"
  then show "console_inv uid (snd (None :: thrown option,
      addLog now
        \<lparr>content = JString (''Joined room '' @ rRoomId r), logRoomId = JString (rRoomId r),
         timestamp = JUndefined\<rparr>
        (requestStats r (requestOnline r (requestPresence r
           (sendMessage r ''/app/join'' [(''type'', JString ''JOIN'')] s4))))))"
    using assms(2) by (simp add: console_inv_requests console_inv_sendMessage)
qed

lemma console_inv_connectAndJoin:
  assumes "console_inv uid s" and "rUserId r = uid"
  shows "console_inv uid (connectAndJoin r s)"
proof -
  define s3 where "s3 = (disconnect s)\<lparr>error := None, status := Connecting\<rparr>"
  define s4 where "s4 = s3\<lparr>clients := clients s3 @
          [\<lparr>reconnectDelay = 5000, webSocketUrl = rWsUrl r, onConnectRender = r,
            isActive = False, isConnected = False\<rparr>]\<rparr>"
  have "console_inv uid s3"
    using assms(1) by (simp add: s3_def)
  then have inv4: "console_inv uid s4"
    using assms(2) by (simp add: console_inv_def s4_def)
  have "connectAndJoin r s =
      (if rStatus r = Connecting then s
       else (activate (length (clients s3)) s4)\<lparr>clientRef := Some (length (clients s3))\<rparr>)"
    by (simp add: connectAndJoin_def Let_def s3_def s4_def)
  then show ?thesis
    using assms(1) inv4 by simp
qed

lemma console_inv_sendPing:
  "console_inv uid s \<Longrightarrow> rUserId r = uid \<Longrightarrow> console_inv uid (sendPing r now s)"
  by (simp add: sendPing_def Let_def console_inv_sendMessage)

lemma console_inv_leaveRoom:
  "console_inv uid s \<Longrightarrow> rUserId r = uid \<Longrightarrow> console_inv uid (leaveRoom r now s)"
  by (simp add: leaveRoom_def Let_def console_inv_sendMessage)

lemma console_inv_switchRoom:
  assumes "console_inv uid s" and "rUserId r = uid"
  shows "console_inv uid (snd (switchRoom r now s))"
proof (cases "rStatus r = Connected")
  case False
  with assms show ?thesis by (simp add: switchRoom_def)
next
  case True
  show ?thesis
  proof (cases "clientRef s")
    case None
    with True assms show ?thesis
      by (simp add: switchRoom_def split: option.splits)
  next
    case (Some c)
    have "console_inv uid (snd (and_then (subscribeRoom c (rRoomId r) s) (\<lambda>s1.
        (None, addLog now
           \<lparr>content = JString (''Moved to '' @ rRoomId r), logRoomId = JUndefined,
            timestamp = JUndefined\<rparr>
           (requestPresence r (sendMessage r ''/app/join'' [(''type'', JString ''JOIN'')] s1))))))"
      using assms
      by (intro console_inv_and_then)
        (simp_all add: console_inv_requests console_inv_sendMessage)
    with True Some show ?thesis
      by (simp add: switchRoom_def Let_def)
  qed
qed

lemma console_inv_callbacks [simp]:
  "console_inv uid (onStompError h s) = console_inv uid s"
  "console_inv uid (onWebSocketError s) = console_inv uid s"
  "console_inv uid (onRoomPresenceQueue p s) = console_inv uid s"
  "console_inv uid (onOnlineUsersQueue p s) = console_inv uid s"
  "console_inv uid (onSystemStatsQueue p s) = console_inv uid s"
  "console_inv uid s \<Longrightarrow> console_inv uid (onRoomTopic now p s)"
  by (simp_all add: onStompError_def onWebSocketError_def onRoomPresenceQueue_def
      onOnlineUsersQueue_def onSystemStatsQueue_def onRoomTopic_def Let_def)

lemma current_render_userId [simp]: "rUserId (current_render s) = userId s"
  by (simp add: current_render_def)

lemma console_inv_step:
  assumes "console_inv uid s"
  shows "console_inv uid (step ev s)"
proof -
  have u: "userId s = uid" using assms by (simp add: console_inv_def)
  have cl: "c < length (clients s) \<Longrightarrow> rUserId (onConnectRender (clients s ! c)) = uid" for c
    using assms by (simp add: console_inv_def list_all_length)
  show ?thesis
    using assms u cl
    by (cases ev)
      (simp_all add: console_inv_connectAndJoin console_inv_sendPing console_inv_requests
        console_inv_leaveRoom console_inv_switchRoom console_inv_onConnect)
qed

lemma console_inv_run:
  "console_inv uid s \<Longrightarrow> console_inv uid (run evs s)"
  unfolding run_def
  by (induction evs arbitrary: s) (simp_all add: console_inv_step)

lemma console_inv_initial: "console_inv uid (initial ws uid)"
  by (simp add: console_inv_def initial_def)


lemma length_logs_addLog: "length (logs (addLog now entry s)) \<le> 30"
  by (simp add: addLog_def)

lemma hd_logs_addLog: "hd (logs (addLog now entry s)) = log_entry now entry"
  by (simp add: addLog_def)

lemma addLogs_snoc:
  "addLogs (calls @ [(now, entry)]) s = addLog now entry (addLogs calls s)"
  by (simp add: addLogs_def)

subsection \<open>The log\<close>

text \<open>
  C9. \<open>addLog\<close> puts the new entry first and keeps at most 30 entries: whatever the
  list was, the result is the first 30 of the new entry followed by the old ones. So after
  any non-empty sequence of \<open>addLog\<close> calls the list has at most 30 entries and its head
  is the entry added last; and no run of the console ever holds more than 30.
\<close>

theorem addLog_newest_first_at_most_30:
  "logs (addLog now entry s) = take 30 (log_entry now entry # logs s) \<and>
   length (logs (addLog now entry s)) \<le> 30 \<and>
   hd (logs (addLog now entry s)) = log_entry now entry \<and>
   (calls \<noteq> [] \<longrightarrow>
      length (logs (addLogs calls s)) \<le> 30 \<and>
      hd (logs (addLogs calls s)) = log_entry (fst (last calls)) (snd (last calls))) \<and>
   length (logs (run evs (initial ws uid))) \<le> 30"
proof -
  have seq: "length (logs (addLogs calls s)) \<le> 30 \<and>
      hd (logs (addLogs calls s)) = log_entry (fst (last calls)) (snd (last calls))"
    if "calls \<noteq> []"
  proof -
    from that obtain front now' entry' where "calls = front @ [(now', entry')]"
      by (cases calls rule: rev_cases) auto
    then show ?thesis
      by (simp add: addLogs_snoc length_logs_addLog hd_logs_addLog)
  qed
  have "console_inv uid (run evs (initial ws uid))"
    by (simp add: console_inv_run console_inv_initial)
  then have "length (logs (run evs (initial ws uid))) \<le> 30"
    by (simp add: console_inv_def)
  with seq show ?thesis
    by (simp add: length_logs_addLog hd_logs_addLog) (simp add: addLog_def)
qed

theorem addLog_newest_first_at_most_30_witness:
  "[(''t1'', \<lparr>content = JString ''a'', logRoomId = JUndefined, timestamp = JUndefined\<rparr>),
    (''t2'', \<lparr>content = JString ''b'', logRoomId = JString ''ops'', timestamp = JNull\<rparr>)] \<noteq> [] \<and>
   length (logs (addLogs
     [(''t1'', \<lparr>content = JString ''a'', logRoomId = JUndefined, timestamp = JUndefined\<rparr>),
      (''t2'', \<lparr>content = JString ''b'', logRoomId = JString ''ops'', timestamp = JNull\<rparr>)]
     example_joined)) \<le> 30 \<and>
   hd (logs (addLogs
     [(''t1'', \<lparr>content = JString ''a'', logRoomId = JUndefined, timestamp = JUndefined\<rparr>),
      (''t2'', \<lparr>content = JString ''b'', logRoomId = JString ''ops'', timestamp = JNull\<rparr>)]
     example_joined)) =
     \<lparr>content = JString ''b'', logRoomId = JString ''ops'', timestamp = JString ''t2''\<rparr>"
  using addLog_newest_first_at_most_30
    [of "''t1''" "\<lparr>content = JString ''a'', logRoomId = JUndefined, timestamp = JUndefined\<rparr>"
        example_joined
        "[(''t1'', \<lparr>content = JString ''a'', logRoomId = JUndefined, timestamp = JUndefined\<rparr>),
          (''t2'', \<lparr>content = JString ''b'', logRoomId = JString ''ops'', timestamp = JNull\<rparr>)]"
        "[]" "''ws''" "''a1b2c3d4''"]
  by (simp add: log_entry_def nullish_def)

subsection \<open>The frames of a run\<close>

lemma click_connect_initial:
  "step ClickConnect (initial ws uid) =
     (initial ws uid)\<lparr>status := Connecting, clientRef := Some 0,
       clients := [\<lparr>reconnectDelay = 5000, webSocketUrl = ws,
                    onConnectRender = current_render (initial ws uid),
                    isActive = True, isConnected = False\<rparr>],
       wire := [Activate 0]\<rparr>"
  by (simp add: initial_def current_render_def connectAndJoin_def disconnect_def activate_def
      set_client_flags_def emit_def Let_def)

lemma stomp_connected_step:
  assumes "c < length (clients s)" and "isActive (clients s ! c)" and "clientRef s = Some c"
  shows "step (StompConnected c now) s =
     snd (onConnect (onConnectRender (clients s ! c)) c now (set_client_flags c True True s))"
    and "clientRef (set_client_flags c True True s) = Some c"
    and "client_connected (set_client_flags c True True s) c"
    and "wire (set_client_flags c True True s) = wire s"
    and "nextSubscription (set_client_flags c True True s) = nextSubscription s"
    and "roomSubscriptionRef (set_client_flags c True True s) = roomSubscriptionRef s"
  using assms by (simp_all add: set_client_flags_def client_connected_def)

lemma example_run_state:
  "run example_run (initial ''ws'' ''a1b2c3d4'') =
     (initial ''ws'' ''a1b2c3d4'')\<lparr>status := Connected, clientRef := Some 0,
       roomSubscriptionRef := Some 3, nextSubscription := 4,
       clients := [\<lparr>reconnectDelay = 5000, webSocketUrl = ''ws'',
                    onConnectRender = current_render (initial ''ws'' ''a1b2c3d4''),
                    isActive = True, isConnected = True\<rparr>],
       logs := [\<lparr>content = JString ''Joined room mission-control'',
                 logRoomId = JString ''mission-control'',
                 timestamp = JString ''2026-01-01T00:00:00.000Z''\<rparr>],
       wire :=
         [Activate 0,
          Subscribe 0 ''/user/queue/room-presence'' 0,
          Subscribe 0 ''/user/queue/online-users'' 1,
          Subscribe 0 ''/user/queue/system-stats'' 2,
          Subscribe 0 ''/topic/room/mission-control'' 3,
          Publish 0 ''/app/join''
            [(''roomId'', JString ''mission-control''), (''userId'', JString ''a1b2c3d4''),
             (''username'', JString ''Thomas Abas''), (''type'', JString ''JOIN'')],
          Publish 0 ''/app/room/presence''
            [(''roomId'', JString ''mission-control''), (''userId'', JString ''a1b2c3d4''),
             (''username'', JString ''Thomas Abas''), (''type'', JString ''ROOM_PRESENCE'')],
          Publish 0 ''/app/users/online''
            [(''roomId'', JString ''mission-control''), (''userId'', JString ''a1b2c3d4''),
             (''username'', JString ''Thomas Abas''), (''type'', JString ''ONLINE_USERS'')],
          Publish 0 ''/app/system/stats''
            [(''roomId'', JString ''mission-control''), (''userId'', JString ''a1b2c3d4''),
             (''username'', JString ''Thomas Abas''), (''type'', JString ''SYSTEM'')]]\<rparr>"
proof -
  define s1 where "s1 = step ClickConnect (initial ''ws'' ''a1b2c3d4'')"
  have s1: "s1 = (initial ''ws'' ''a1b2c3d4'')\<lparr>status := Connecting, clientRef := Some 0,
       clients := [\<lparr>reconnectDelay = 5000, webSocketUrl = ''ws'',
                    onConnectRender = current_render (initial ''ws'' ''a1b2c3d4''),
                    isActive = True, isConnected = False\<rparr>],
       wire := [Activate 0]\<rparr>"
    unfolding s1_def by (rule click_connect_initial)
  define s1' where "s1' = set_client_flags 0 True True s1"
  have ready: "clientRef s1' = Some 0" "client_connected s1' 0"
    by (simp_all add: s1'_def s1 set_client_flags_def client_connected_def)
  have render: "onConnectRender (clients s1 ! 0) = current_render (initial ''ws'' ''a1b2c3d4'')"
    by (simp add: s1)
  have "run example_run (initial ''ws'' ''a1b2c3d4'') =
      step (StompConnected 0 ''2026-01-01T00:00:00.000Z'') s1"
    by (simp only: example_run_def run_def foldl.simps s1_def)
  also have "\<dots> = snd (onConnect (onConnectRender (clients s1 ! 0)) 0
             ''2026-01-01T00:00:00.000Z'' s1')"
    unfolding s1'_def by (rule stomp_connected_step(1)) (simp_all add: s1)
  finally show ?thesis
    unfolding render onConnect_eq [OF ready]
    by (simp add: s1'_def s1 set_client_flags_def initial_def current_render_def
        wire_message_def message_defaults_def)
qed

lemma example_run_wire:
  "wire (run example_run (initial ''ws'' ''a1b2c3d4'')) =
     [Activate 0,
      Subscribe 0 ''/user/queue/room-presence'' 0,
      Subscribe 0 ''/user/queue/online-users'' 1,
      Subscribe 0 ''/user/queue/system-stats'' 2,
      Subscribe 0 ''/topic/room/mission-control'' 3,
      Publish 0 ''/app/join''
        [(''roomId'', JString ''mission-control''), (''userId'', JString ''a1b2c3d4''),
         (''username'', JString ''Thomas Abas''), (''type'', JString ''JOIN'')],
      Publish 0 ''/app/room/presence''
        [(''roomId'', JString ''mission-control''), (''userId'', JString ''a1b2c3d4''),
         (''username'', JString ''Thomas Abas''), (''type'', JString ''ROOM_PRESENCE'')],
      Publish 0 ''/app/users/online''
        [(''roomId'', JString ''mission-control''), (''userId'', JString ''a1b2c3d4''),
         (''username'', JString ''Thomas Abas''), (''type'', JString ''ONLINE_USERS'')],
      Publish 0 ''/app/system/stats''
        [(''roomId'', JString ''mission-control''), (''userId'', JString ''a1b2c3d4''),
         (''username'', JString ''Thomas Abas''), (''type'', JString ''SYSTEM'')]]"
  by (simp add: example_run_state)

lemma example_run_clients:
  "clients (run example_run (initial ''ws'' ''a1b2c3d4'')) =
     [\<lparr>reconnectDelay = 5000, webSocketUrl = ''ws'',
       onConnectRender = current_render (initial ''ws'' ''a1b2c3d4''),
       isActive = True, isConnected = True\<rparr>]"
  by (simp add: example_run_state)

lemma list_all_mono':
  "list_all P xs \<Longrightarrow> (\<And>x. P x \<Longrightarrow> Q x) \<Longrightarrow> list_all Q xs"
  by (induction xs) auto

lemma stringified_merge:
  "map_of (JSON_stringify (spread (message_defaults r) body)) k =
     (case (map_of (message_defaults r) ++ map_of (rev body)) k of
        None \<Rightarrow> None
      | Some v \<Rightarrow> if v = JUndefined then None else Some (serialise v))"
proof -
  have "distinct (map fst (message_defaults r))"
    by (simp add: message_defaults_def)
  then have "distinct (map fst (spread (message_defaults r) body))"
    by (rule distinct_spread)
  then show ?thesis
    by (simp add: map_of_stringify map_of_spread)
qed

text \<open>
  C3. In every run of the console, every frame published goes to one of the six
  destinations \<open>/app/join\<close>, \<open>/app/leave\<close>, \<open>/app/ping\<close>, \<open>/app/room/presence\<close>,
  \<open>/app/users/online\<close>, \<open>/app/system/stats\<close>, and its body has the members
  \<open>userId\<close>, \<open>username\<close>, \<open>roomId\<close> and \<open>type\<close>. For any send that reaches the
  transport, the body is the serialised merge: the caller's fields written over the defaults
  \<open>roomId\<close>, \<open>userId\<close>, \<open>username\<close> of the render.
\<close>

theorem published_frames_addressed_and_filled:
  "list_all well_addressed (wire (run evs (initial ws uid))) \<and>
   (clientRef s = Some c \<and> client_connected s c \<longrightarrow>
      wire (sendMessage r d body s) =
        wire s @ [Publish c d (JSON_stringify (spread (message_defaults r) body))] \<and>
      (\<forall>k. map_of (JSON_stringify (spread (message_defaults r) body)) k =
         (case (map_of (message_defaults r) ++ map_of (rev body)) k of
            None \<Rightarrow> None
          | Some v \<Rightarrow> if v = JUndefined then None else Some (serialise v))))"
proof -
  have "console_inv uid (run evs (initial ws uid))"
    by (simp add: console_inv_run console_inv_initial)
  then have "list_all (\<lambda>e. well_addressed e \<and> carries_userId uid e) (wire (run evs (initial ws uid)))"
    by (simp add: console_inv_def)
  then have "list_all well_addressed (wire (run evs (initial ws uid)))"
    by (rule list_all_mono') simp
  then show ?thesis
    by (simp add: sendMessage_connected stringified_merge)
qed

theorem published_frames_addressed_and_filled_witness:
  "list_all well_addressed (wire (run example_run (initial ''ws'' ''a1b2c3d4''))) \<and>
   Publish 0 ''/app/join''
        [(''roomId'', JString ''mission-control''), (''userId'', JString ''a1b2c3d4''),
         (''username'', JString ''Thomas Abas''), (''type'', JString ''JOIN'')]
     \<in> set (wire (run example_run (initial ''ws'' ''a1b2c3d4''))) \<and>
   clientRef example_joined = Some 0 \<and> client_connected example_joined 0 \<and>
   wire (sendMessage example_render ''/app/leave''
           [(''type'', JString ''LEAVE''), (''roomId'', JString ''lobby'')] example_joined) =
     [Publish 0 ''/app/leave''
        [(''roomId'', JString ''lobby''), (''userId'', JString ''a1b2c3d4''),
         (''username'', JString ''Thomas Abas''), (''type'', JString ''LEAVE'')]]"
  using published_frames_addressed_and_filled
    [of example_run "''ws''" "''a1b2c3d4''" example_joined 0 example_render "''/app/leave''"
        "[(''type'', JString ''LEAVE''), (''roomId'', JString ''lobby'')]"]
  by (simp add: example_run_wire example_joined_facts spread_def JSON_stringify_def
      message_defaults_def example_render_def)

text \<open>
  C4. In every run of the console, every frame published carries \<open>userId\<close>, and it is the
  identifier drawn at the first render. For any send that reaches the transport with a body
  that has no \<open>userId\<close> property of its own (every call of the page passes \<open>{ type }\<close>
  only), the frame carries the \<open>userId\<close> of the render.
\<close>

theorem published_frames_carry_userId:
  "list_all (carries_userId uid) (wire (run evs (initial ws uid))) \<and>
   (clientRef s = Some c \<and> client_connected s c \<and> ''userId'' \<notin> fst ` set body \<longrightarrow>
      (\<exists>frame. wire (sendMessage r d body s) = wire s @ [Publish c d frame] \<and>
         map_of frame ''userId'' = Some (JString (rUserId r))))"
proof -
  have "console_inv uid (run evs (initial ws uid))"
    by (simp add: console_inv_run console_inv_initial)
  then have "list_all (\<lambda>e. well_addressed e \<and> carries_userId uid e) (wire (run evs (initial ws uid)))"
    by (simp add: console_inv_def)
  then have run: "list_all (carries_userId uid) (wire (run evs (initial ws uid)))"
    by (rule list_all_mono') simp
  have "map_of (JSON_stringify (spread (message_defaults r) body)) ''userId'' =
      Some (JString (rUserId r))"
    if "''userId'' \<notin> fst ` set body"
  proof -
    from that have "map_of (rev body) ''userId'' = None"
      by (simp add: map_of_eq_None_iff)
    moreover have "map_of (message_defaults r) ''userId'' = Some (JString (rUserId r))"
      by (simp add: message_defaults_def)
    ultimately show ?thesis
      by (simp add: stringified_merge map_add_def)
  qed
  with run show ?thesis
    by (simp add: sendMessage_connected)
qed

theorem published_frames_carry_userId_witness:
  "list_all (carries_userId ''a1b2c3d4'') (wire (run example_run (initial ''ws'' ''a1b2c3d4''))) \<and>
   Publish 0 ''/app/join''
        [(''roomId'', JString ''mission-control''), (''userId'', JString ''a1b2c3d4''),
         (''username'', JString ''Thomas Abas''), (''type'', JString ''JOIN'')]
     \<in> set (wire (run example_run (initial ''ws'' ''a1b2c3d4''))) \<and>
   clientRef example_joined = Some 0 \<and> client_connected example_joined 0 \<and>
   ''userId'' \<notin> fst ` set [(''type'', JString ''PING'')] \<and>
   (\<exists>frame. wire (sendMessage example_render ''/app/ping'' [(''type'', JString ''PING'')]
                    example_joined) = wire example_joined @ [Publish 0 ''/app/ping'' frame] \<and>
      map_of frame ''userId'' = Some (JString ''a1b2c3d4''))"
  using published_frames_carry_userId
    [of "''a1b2c3d4''" example_run "''ws''" example_joined 0 "[(''type'', JString ''PING'')]"
        example_render "''/app/ping''"]
  by (simp add: example_run_wire example_joined_facts example_render_def)

text \<open>
  A remark on the edge. A caller that passed \<open>userId: undefined\<close> would lose the field,
  since the spread writes it over the default and the serialiser leaves it out; no call of
  the page does.
\<close>

lemma undefined_userId_is_left_out:
  "map_of (JSON_stringify (spread (message_defaults r)
      [(''type'', JString ''JOIN''), (''userId'', JUndefined)])) ''userId'' = None"
  by (simp add: spread_def JSON_stringify_def message_defaults_def)

subsection \<open>Which room is joined on connect\<close>

lemma renders_upd [simp]:
  "renders (s\<lparr>wsUrl := a\<rparr>) = renders s"
  "renders (s\<lparr>userId := a\<rparr>) = renders s"
  "renders (s\<lparr>username := a\<rparr>) = renders s"
  "renders (s\<lparr>roomId := a\<rparr>) = renders s"
  "renders (s\<lparr>status := b\<rparr>) = renders s"
  "renders (s\<lparr>presence := p\<rparr>) = renders s"
  "renders (s\<lparr>onlineUsers := ou\<rparr>) = renders s"
  "renders (s\<lparr>logs := l\<rparr>) = renders s"
  "renders (s\<lparr>stats := p\<rparr>) = renders s"
  "renders (s\<lparr>error := e\<rparr>) = renders s"
  "renders (s\<lparr>lastPing := e\<rparr>) = renders s"
  "renders (s\<lparr>nowTs := i\<rparr>) = renders s"
  "renders (s\<lparr>activeTab := tb\<rparr>) = renders s"
  "renders (s\<lparr>clientRef := cr\<rparr>) = renders s"
  "renders (s\<lparr>roomSubscriptionRef := cr\<rparr>) = renders s"
  "renders (s\<lparr>nextSubscription := n\<rparr>) = renders s"
  "renders (s\<lparr>wire := w\<rparr>) = renders s"
  by (simp_all add: renders_def)

lemma renders_flags [simp]: "renders (set_client_flags c a k s) = renders s"
  by (auto simp: renders_def set_client_flags_def nth_list_update intro!: nth_equalityI)

lemma renders_primitives [simp]:
  "renders (emit e s) = renders s"
  "renders (unsubscribe sub s) = renders s"
  "renders (activate c s) = renders s"
  "renders (deactivate c s) = renders s"
  "renders (addLog now entry s) = renders s"
  "renders (sendMessage r d body s) = renders s"
  "renders (snd (subscribe_only c d s)) = renders s"
  by (simp_all add: emit_def unsubscribe_def activate_def deactivate_def addLog_def
      sendMessage_def publish_def subscribe_only_def subscribe_def split: option.splits)

lemma renders_and_then:
  assumes "\<And>s. renders (snd (f s)) = renders s"
  shows "renders (snd (and_then res f)) = renders (snd res)"
proof (cases res)
  case (Pair e s)
  with assms show ?thesis
    by (cases e) (simp_all add: and_then_def)
qed

lemma renders_subscribing [simp]:
  "renders (snd (subscribeCoreRoutes c s)) = renders s"
  "renders (snd (subscribeRoom c room s)) = renders s"
proof -
  show "renders (snd (subscribeCoreRoutes c s)) = renders s"
    by (simp add: subscribeCoreRoutes_def renders_and_then)
  show "renders (snd (subscribeRoom c room s)) = renders s"
    by (cases "client_connected s c")
      (simp_all add: subscribeRoom_eq subscribeRoom_lost split: option.splits)
qed

lemma renders_handlers [simp]:
  "renders (requestPresence r s) = renders s"
  "renders (requestOnline r s) = renders s"
  "renders (requestStats r s) = renders s"
  "renders (sendPing r now s) = renders s"
  "renders (leaveRoom r now s) = renders s"
  "renders (disconnect s) = renders s"
  "renders (onStompError h s) = renders s"
  "renders (onWebSocketError s) = renders s"
  "renders (onRoomPresenceQueue p s) = renders s"
  "renders (onOnlineUsersQueue p s) = renders s"
  "renders (onSystemStatsQueue p s) = renders s"
  "renders (onRoomTopic now p s) = renders s"
  by (simp_all add: requestPresence_def requestOnline_def requestStats_def sendPing_def
      leaveRoom_def disconnect_def onStompError_def onWebSocketError_def
      onRoomPresenceQueue_def onOnlineUsersQueue_def onSystemStatsQueue_def onRoomTopic_def
      Let_def split: option.splits)

lemma renders_onConnect [simp]: "renders (snd (onConnect r c now s)) = renders s"
  by (simp add: onConnect_def Let_def renders_and_then)

lemma renders_switchRoom [simp]: "renders (snd (switchRoom r now s)) = renders s"
  by (simp add: switchRoom_def Let_def renders_and_then split: option.splits)

lemma renders_connectAndJoin:
  "renders (connectAndJoin r s) = (if rStatus r = Connecting then renders s else renders s @ [r])"
proof -
  have a: "renders (s'\<lparr>clients := cs\<rparr>) = map onConnectRender cs" for s' cs
    by (simp add: renders_def)
  have b: "map onConnectRender (clients (disconnect s)) = renders s"
    using renders_handlers(6) [of s] by (simp add: renders_def)
  show ?thesis
    by (simp add: connectAndJoin_def Let_def a b)
qed

lemma renders_step: "\<exists>ext. renders (step ev s) = renders s @ ext"
  by (cases ev) (simp_all add: renders_connectAndJoin)

lemma renders_run: "\<exists>ext. renders (run evs s) = renders s @ ext"
proof (induction evs arbitrary: s)
  case Nil
  show ?case by (simp add: run_def)
next
  case (Cons ev evs)
  obtain e1 where e1: "renders (step ev s) = renders s @ e1"
    using renders_step by blast
  obtain e2 where e2: "renders (run evs (step ev s)) = renders (step ev s) @ e2"
    using Cons.IH by blast
  have "run (ev # evs) s = run evs (step ev s)"
    by (simp add: run_def)
  with e1 e2 show ?case by simp
qed

lemma render_of_the_click:
  assumes "status s \<noteq> Connecting"
  shows "length (clients s) < length (clients (run evs (step ClickConnect s)))"
    and "onConnectRender (clients (run evs (step ClickConnect s)) ! length (clients s)) =
       current_render s"
proof -
  define s' where "s' = run evs (step ClickConnect s)"
  have "renders (step ClickConnect s) = renders s @ [current_render s]"
    using assms by (simp add: renders_connectAndJoin current_render_def)
  moreover obtain ext where "renders s' = renders (step ClickConnect s) @ ext"
    unfolding s'_def using renders_run by blast
  ultimately have all: "renders s' = renders s @ current_render s # ext"
    by simp
  have len: "length (renders s) = length (clients s)" "length (renders s') = length (clients s')"
    by (simp_all add: renders_def)
  from all len show less: "length (clients s) < length (clients (run evs (step ClickConnect s)))"
    unfolding s'_def [symmetric] by (metis length_append length_Cons less_add_Suc1 add_Suc_right)
  from all len(1) have "renders s' ! length (clients s) = current_render s"
    by (metis nth_append_length)
  with less show "onConnectRender (clients (run evs (step ClickConnect s)) ! length (clients s)) =
       current_render s"
    unfolding s'_def [symmetric] by (simp add: renders_def)
qed

lemma edited_while_connecting_before:
  "run [ChangeRoomId ''eng''] (step ClickConnect (initial ''ws'' ''a1b2c3d4'')) =
     (initial ''ws'' ''a1b2c3d4'')\<lparr>roomId := ''eng'', status := Connecting, clientRef := Some 0,
       clients := [\<lparr>reconnectDelay = 5000, webSocketUrl = ''ws'',
                    onConnectRender = current_render (initial ''ws'' ''a1b2c3d4''),
                    isActive = True, isConnected = False\<rparr>],
       wire := [Activate 0]\<rparr>"
  by (simp add: run_def click_connect_initial del: step.simps(5))

lemma edited_while_connecting_unfold:
  "edited_while_connecting =
     step (StompConnected 0 ''2026-01-01T00:00:00.000Z'')
       (run [ChangeRoomId ''eng''] (step ClickConnect (initial ''ws'' ''a1b2c3d4'')))"
  by (simp only: edited_while_connecting_def run_def foldl.simps)

lemma edited_while_connecting_state:
  "roomId edited_while_connecting = ''eng''"
  "status edited_while_connecting = Connected"
  "wire edited_while_connecting =
     [Activate 0,
      Subscribe 0 ''/user/queue/room-presence'' 0,
      Subscribe 0 ''/user/queue/online-users'' 1,
      Subscribe 0 ''/user/queue/system-stats'' 2,
      Subscribe 0 ''/topic/room/mission-control'' 3,
      Publish 0 ''/app/join''
        [(''roomId'', JString ''mission-control''), (''userId'', JString ''a1b2c3d4''),
         (''username'', JString ''Thomas Abas''), (''type'', JString ''JOIN'')],
      Publish 0 ''/app/room/presence''
        [(''roomId'', JString ''mission-control''), (''userId'', JString ''a1b2c3d4''),
         (''username'', JString ''Thomas Abas''), (''type'', JString ''ROOM_PRESENCE'')],
      Publish 0 ''/app/users/online''
        [(''roomId'', JString ''mission-control''), (''userId'', JString ''a1b2c3d4''),
         (''username'', JString ''Thomas Abas''), (''type'', JString ''ONLINE_USERS'')],
      Publish 0 ''/app/system/stats''
        [(''roomId'', JString ''mission-control''), (''userId'', JString ''a1b2c3d4''),
         (''username'', JString ''Thomas Abas''), (''type'', JString ''SYSTEM'')]]"
proof -
  define s1 where "s1 = run [ChangeRoomId ''eng''] (step ClickConnect (initial ''ws'' ''a1b2c3d4''))"
  note s1 = edited_while_connecting_before [folded s1_def]
  define s1' where "s1' = set_client_flags 0 True True s1"
  have ready: "clientRef s1' = Some 0" "client_connected s1' 0"
    by (simp_all add: s1'_def s1 set_client_flags_def client_connected_def)
  have render: "onConnectRender (clients s1 ! 0) = current_render (initial ''ws'' ''a1b2c3d4'')"
    by (simp add: s1)
  have "edited_while_connecting = step (StompConnected 0 ''2026-01-01T00:00:00.000Z'') s1"
    unfolding s1_def by (rule edited_while_connecting_unfold)
  also have "\<dots> = snd (onConnect (onConnectRender (clients s1 ! 0)) 0
             ''2026-01-01T00:00:00.000Z'' s1')"
    unfolding s1'_def by (rule stomp_connected_step(1)) (simp_all add: s1)
  finally have eq: "edited_while_connecting =
      snd (onConnect (current_render (initial ''ws'' ''a1b2c3d4'')) 0
             ''2026-01-01T00:00:00.000Z'' s1')"
    unfolding render .
  show "roomId edited_while_connecting = ''eng''"
    unfolding eq onConnect_eq [OF ready]
    by (simp add: s1'_def s1 set_client_flags_def)
  show "status edited_while_connecting = Connected"
    unfolding eq onConnect_eq [OF ready] by simp
  show "wire edited_while_connecting =
     [Activate 0,
      Subscribe 0 ''/user/queue/room-presence'' 0,
      Subscribe 0 ''/user/queue/online-users'' 1,
      Subscribe 0 ''/user/queue/system-stats'' 2,
      Subscribe 0 ''/topic/room/mission-control'' 3,
      Publish 0 ''/app/join''
        [(''roomId'', JString ''mission-control''), (''userId'', JString ''a1b2c3d4''),
         (''username'', JString ''Thomas Abas''), (''type'', JString ''JOIN'')],
      Publish 0 ''/app/room/presence''
        [(''roomId'', JString ''mission-control''), (''userId'', JString ''a1b2c3d4''),
         (''username'', JString ''Thomas Abas''), (''type'', JString ''ROOM_PRESENCE'')],
      Publish 0 ''/app/users/online''
        [(''roomId'', JString ''mission-control''), (''userId'', JString ''a1b2c3d4''),
         (''username'', JString ''Thomas Abas''), (''type'', JString ''ONLINE_USERS'')],
      Publish 0 ''/app/system/stats''
        [(''roomId'', JString ''mission-control''), (''userId'', JString ''a1b2c3d4''),
         (''username'', JString ''Thomas Abas''), (''type'', JString ''SYSTEM'')]]"
    unfolding eq onConnect_eq [OF ready]
    by (simp add: s1'_def s1 set_client_flags_def initial_def current_render_def
        wire_message_def message_defaults_def)
qed

text \<open>
  The claim C1, as it is stated for the \<open>roomId\<close> current at connect time, fails when
  the room field is edited while the client is connecting (the field stays enabled, only
  the button is disabled): at the connect the component's \<open>roomId\<close> is \<open>eng\<close>, and the
  callback subscribes and joins \<open>mission-control\<close>, the room of the click.
\<close>

theorem onConnect_room_counterexample:
  "roomId edited_while_connecting = ''eng'' \<and>
   status edited_while_connecting = Connected \<and>
   Subscribe 0 ''/topic/room/mission-control'' 3 \<in> set (wire edited_while_connecting) \<and>
   Subscribe 0 ''/topic/room/eng'' 3 \<notin> set (wire edited_while_connecting) \<and>
   Publish 0 ''/app/join''
     [(''roomId'', JString ''mission-control''), (''userId'', JString ''a1b2c3d4''),
      (''username'', JString ''Thomas Abas''), (''type'', JString ''JOIN'')]
     \<in> set (wire edited_while_connecting)"
  by (simp add: edited_while_connecting_state)

text \<open>
  C1, amended. Take the client that \<open>connectAndJoin\<close> builds at a click (in a render that
  is not connecting), and let anything happen afterwards. Whenever the library then reports
  a connection of that client while it is still the one in \<open>clientRef\<close>, the
  \<open>onConnect\<close> callback sets the status to connected and asks the transport, in this
  order and nothing else: the subscriptions to the three per-connection queues, the closing
  of a room subscription left in the ref (there is one after a reconnect), the subscription
  to \<open>/topic/room/{roomId}\<close>, the JOIN to \<open>/app/join\<close>, and the three requests; where
  \<open>roomId\<close>, \<open>userId\<close> and \<open>username\<close> are, for every value of them, the ones the
  component had at the click.
\<close>

theorem onConnect_subscribes_and_joins:
  assumes "status s \<noteq> Connecting"
    and "s' = run evs (step ClickConnect s)"
    and "c = length (clients s)"
    and "clientRef s' = Some c"
    and "isActive (clients s' ! c)"
  shows "status (step (StompConnected c now) s') = Connected \<and>
     wire (step (StompConnected c now) s') = wire s' @
       [Subscribe c ''/user/queue/room-presence'' (nextSubscription s'),
        Subscribe c ''/user/queue/online-users'' (nextSubscription s' + 1),
        Subscribe c ''/user/queue/system-stats'' (nextSubscription s' + 2)] @
       (case roomSubscriptionRef s' of None \<Rightarrow> [] | Some sub \<Rightarrow> [Unsubscribe sub]) @
       [Subscribe c (''/topic/room/'' @ roomId s) (nextSubscription s' + 3),
        Publish c ''/app/join'' (wire_message (current_render s) ''JOIN''),
        Publish c ''/app/room/presence'' (wire_message (current_render s) ''ROOM_PRESENCE''),
        Publish c ''/app/users/online'' (wire_message (current_render s) ''ONLINE_USERS''),
        Publish c ''/app/system/stats'' (wire_message (current_render s) ''SYSTEM'')]"
proof -
  have less: "c < length (clients s')"
    and render: "onConnectRender (clients s' ! c) = current_render s"
    using render_of_the_click [OF assms(1), of evs] assms(2,3) by simp_all
  note st = stomp_connected_step [OF less assms(5) assms(4)]
  note fx = onConnect_effects [OF st(2) st(3), where r = "current_render s" and now = now]
  have room: "rRoomId (current_render s) = roomId s"
    by (simp add: current_render_def)
  show ?thesis
    unfolding st(1) [of now] render
    using fx(2) fx(3) by (simp only: st(4) st(5) st(6) room simp_thms)
qed

theorem onConnect_subscribes_and_joins_witness:
  "status (initial ''ws'' ''a1b2c3d4'') \<noteq> Connecting \<and>
   0 = length (clients (initial ''ws'' ''a1b2c3d4'')) \<and>
   clientRef (run [ChangeRoomId ''eng''] (step ClickConnect (initial ''ws'' ''a1b2c3d4''))) = Some 0 \<and>
   isActive (clients (run [ChangeRoomId ''eng''] (step ClickConnect (initial ''ws'' ''a1b2c3d4''))) ! 0) \<and>
   roomId (initial ''ws'' ''a1b2c3d4'') = ''mission-control'' \<and>
   wire (step (StompConnected 0 ''2026-01-01T00:00:00.000Z'')
           (run [ChangeRoomId ''eng''] (step ClickConnect (initial ''ws'' ''a1b2c3d4'')))) =
     [Activate 0,
      Subscribe 0 ''/user/queue/room-presence'' 0,
      Subscribe 0 ''/user/queue/online-users'' 1,
      Subscribe 0 ''/user/queue/system-stats'' 2,
      Subscribe 0 ''/topic/room/mission-control'' 3,
      Publish 0 ''/app/join''
        [(''roomId'', JString ''mission-control''), (''userId'', JString ''a1b2c3d4''),
         (''username'', JString ''Thomas Abas''), (''type'', JString ''JOIN'')],
      Publish 0 ''/app/room/presence''
        [(''roomId'', JString ''mission-control''), (''userId'', JString ''a1b2c3d4''),
         (''username'', JString ''Thomas Abas''), (''type'', JString ''ROOM_PRESENCE'')],
      Publish 0 ''/app/users/online''
        [(''roomId'', JString ''mission-control''), (''userId'', JString ''a1b2c3d4''),
         (''username'', JString ''Thomas Abas''), (''type'', JString ''ONLINE_USERS'')],
      Publish 0 ''/app/system/stats''
        [(''roomId'', JString ''mission-control''), (''userId'', JString ''a1b2c3d4''),
         (''username'', JString ''Thomas Abas''), (''type'', JString ''SYSTEM'')]]"
proof -
  define s where "s = initial ''ws'' ''a1b2c3d4''"
  define s' where "s' = run [ChangeRoomId ''eng''] (step ClickConnect s)"
  note before = edited_while_connecting_before [folded s_def, folded s'_def]
  have h1: "status s \<noteq> Connecting" and h3: "0 = length (clients s)"
    and room: "roomId s = ''mission-control''"
    by (simp_all add: s_def initial_def)
  have h2: "s' = run [ChangeRoomId ''eng''] (step ClickConnect s)"
    by (simp only: s'_def)
  have h4: "clientRef s' = Some 0" and h5: "isActive (clients s' ! 0)"
    and facts: "wire s' = [Activate 0]" "nextSubscription s' = 0" "roomSubscriptionRef s' = None"
    by (simp_all add: before) (simp_all add: s_def initial_def)
  have msg: "wire_message (current_render s) t =
      [(''roomId'', JString ''mission-control''), (''userId'', JString ''a1b2c3d4''),
       (''username'', JString ''Thomas Abas''), (''type'', JString t)]" for t
    by (simp add: wire_message_def message_defaults_def current_render_def s_def initial_def)
  from onConnect_subscribes_and_joins [OF h1 h2 h3 h4 h5, of "''2026-01-01T00:00:00.000Z''"]
  have "wire (step (StompConnected 0 ''2026-01-01T00:00:00.000Z'') s') =
     [Activate 0,
      Subscribe 0 ''/user/queue/room-presence'' 0,
      Subscribe 0 ''/user/queue/online-users'' 1,
      Subscribe 0 ''/user/queue/system-stats'' 2,
      Subscribe 0 ''/topic/room/mission-control'' 3,
      Publish 0 ''/app/join''
        [(''roomId'', JString ''mission-control''), (''userId'', JString ''a1b2c3d4''),
         (''username'', JString ''Thomas Abas''), (''type'', JString ''JOIN'')],
      Publish 0 ''/app/room/presence''
        [(''roomId'', JString ''mission-control''), (''userId'', JString ''a1b2c3d4''),
         (''username'', JString ''Thomas Abas''), (''type'', JString ''ROOM_PRESENCE'')],
      Publish 0 ''/app/users/online''
        [(''roomId'', JString ''mission-control''), (''userId'', JString ''a1b2c3d4''),
         (''username'', JString ''Thomas Abas''), (''type'', JString ''ONLINE_USERS'')],
      Publish 0 ''/app/system/stats''
        [(''roomId'', JString ''mission-control''), (''userId'', JString ''a1b2c3d4''),
         (''username'', JString ''Thomas Abas''), (''type'', JString ''SYSTEM'')]]"
    by (simp add: facts room msg del: step.simps)
  with h1 h3 h4 h5 room show ?thesis
    unfolding s'_def s_def by (simp del: step.simps)
qed

subsection \<open>A room switch after the socket is lost\<close>




section \<open>Properties of the presence engine\<close>

lemma touch_fields [simp]:
  "directory (touch c now st) = directory st"
  "registry (touch c now st) =
     (case registry st c of None \<Rightarrow> registry st
      | Some conn \<Rightarrow> (registry st)(c \<mapsto> conn\<lparr>lastSeen := now\<rparr>))"
  by (simp_all add: touch_def split: option.splits)

lemma set_room_fields [simp]:
  "directory (set_room c r st) = directory st"
  "registry (set_room c r st) =
     (case registry st c of None \<Rightarrow> registry st
      | Some conn \<Rightarrow> (registry st)(c \<mapsto> conn\<lparr>currentRoomId := r\<rparr>))"
  by (simp_all add: set_room_def split: option.splits)

lemma join_fields [simp]:
  "directory (fst (join r u st)) = (directory st)(r := insert u (directory st r))"
  "registry (fst (join r u st)) = registry st"
  by (simp_all add: join_def Let_def)

lemma leave_fields [simp]:
  "directory (fst (leave r u st)) = (directory st)(r := directory st r - {u})"
  "registry (fst (leave r u st)) = registry st"
  by (simp_all add: leave_def Let_def fun_eq_iff)

lemma leave_absent:
  "u \<notin> directory st r \<Longrightarrow> fst (leave r u st) = st"
  by (simp add: leave_def Let_def)

lemma handle_leave_elsewhere:
  "registry st c = Some conn \<Longrightarrow> currentRoomId conn \<noteq> Some r \<Longrightarrow>
   handle c (LeaveRequest r) now st =
     (st\<lparr>registry := (registry st)(c \<mapsto> conn\<lparr>lastSeen := now\<rparr>)\<rparr>, [])"
  by (simp add: handle_def touch_def Let_def)

lemma handle_unknown: "registry st c = None \<Longrightarrow> handle c req now st = (st, [])"
  by (simp add: handle_def)



lemma handle_ping:
  "registry st c = Some conn \<Longrightarrow> handle c PingRequest now st = (touch c now st, [])"
  by (simp add: handle_def Let_def)

lemma handle_leave_here:
  assumes "registry st c = Some conn" and "claimedUserId conn = Some u"
    and "currentRoomId conn = Some r"
  shows "registry (fst (handle c (LeaveRequest r) now st)) =
       (registry st)(c \<mapsto> conn\<lparr>lastSeen := now, currentRoomId := None\<rparr>)"
    and "directory (fst (handle c (LeaveRequest r) now st)) =
       (directory st)(r := directory st r - {u})"
  using assms by (simp_all add: handle_def Let_def)

lemma handle_join_registry:
  assumes "registry st c = Some conn" and "claimedUserId conn = Some u"
  shows "registry (fst (handle c (JoinRequest r) now st)) =
     (registry st)(c \<mapsto> conn\<lparr>lastSeen := now, currentRoomId := Some r\<rparr>)"
proof (cases "currentRoomId conn")
  case None
  with assms show ?thesis by (simp add: handle_def Let_def split_beta)
next
  case (Some r0)
  with assms show ?thesis by (simp add: handle_def Let_def split_beta)
qed

lemma handle_join_directory:
  assumes "registry st c = Some conn" and "claimedUserId conn = Some u"
  shows "directory (fst (handle c (JoinRequest r) now st)) =
     (case currentRoomId conn of
        None \<Rightarrow> (directory st)(r := insert u (directory st r))
      | Some r0 \<Rightarrow>
          if r0 = r then (directory st)(r := insert u (directory st r))
          else (directory st)(r0 := directory st r0 - {u}, r := insert u (directory st r)))"
proof (cases "currentRoomId conn")
  case None
  with assms show ?thesis by (simp add: handle_def Let_def split_beta)
next
  case (Some r0)
  with assms show ?thesis by (simp add: handle_def Let_def split_beta)
qed


lemma in_one_roomI:
  "registry st c = Some conn \<Longrightarrow> claimedUserId conn = Some u \<Longrightarrow>
   (\<And>r. u \<in> directory st r \<Longrightarrow> currentRoomId conn = Some r) \<Longrightarrow> in_one_room c u st"
  unfolding in_one_room_def by blast

lemma handle_keeps_one_room:
  assumes "in_one_room c u st"
  shows "in_one_room c u (fst (handle c req now st))"
proof -
  from assms obtain conn where conn: "registry st c = Some conn" "claimedUserId conn = Some u"
    and only: "\<forall>r. u \<in> directory st r \<longrightarrow> currentRoomId conn = Some r"
    unfolding in_one_room_def by blast
  show ?thesis
  proof (cases req)
    case PingRequest
    show ?thesis
    proof (rule in_one_roomI)
      show "registry (fst (handle c req now st)) c = Some (conn\<lparr>lastSeen := now\<rparr>)"
        using conn by (simp add: PingRequest handle_ping)
      show "claimedUserId (conn\<lparr>lastSeen := now\<rparr>) = Some u"
        using conn by simp
      show "currentRoomId (conn\<lparr>lastSeen := now\<rparr>) = Some r"
        if "u \<in> directory (fst (handle c req now st)) r" for r
        using that conn only by (simp add: PingRequest handle_ping)
    qed
  next
    case (LeaveRequest r')
    show ?thesis
    proof (cases "currentRoomId conn = Some r'")
      case False
      have eq: "fst (handle c req now st) =
          st\<lparr>registry := (registry st)(c \<mapsto> conn\<lparr>lastSeen := now\<rparr>)\<rparr>"
        using conn False by (simp add: LeaveRequest handle_leave_elsewhere)
      show ?thesis
      proof (rule in_one_roomI)
        show "registry (fst (handle c req now st)) c = Some (conn\<lparr>lastSeen := now\<rparr>)"
          by (simp add: eq)
        show "claimedUserId (conn\<lparr>lastSeen := now\<rparr>) = Some u"
          using conn by simp
        show "currentRoomId (conn\<lparr>lastSeen := now\<rparr>) = Some r"
          if "u \<in> directory (fst (handle c req now st)) r" for r
          using that only by (simp add: eq)
      qed
    next
      case True
      note here = handle_leave_here [OF conn True, of now]
      show ?thesis
      proof (rule in_one_roomI)
        show "registry (fst (handle c req now st)) c =
            Some (conn\<lparr>lastSeen := now, currentRoomId := None\<rparr>)"
          by (simp add: LeaveRequest here)
        show "claimedUserId (conn\<lparr>lastSeen := now, currentRoomId := None\<rparr>) = Some u"
          using conn by simp
        show "currentRoomId (conn\<lparr>lastSeen := now, currentRoomId := None\<rparr>) = Some r"
          if "u \<in> directory (fst (handle c req now st)) r" for r
        proof -
          from that have "u \<in> directory st r" and "r \<noteq> r'"
            by (auto simp: LeaveRequest here split: if_splits)
          with only True show ?thesis by simp
        qed
      qed
    qed
  next
    case (JoinRequest r')
    note reg = handle_join_registry [OF conn, of r' now]
    note dir = handle_join_directory [OF conn, of r' now]
    show ?thesis
    proof (rule in_one_roomI)
      show "registry (fst (handle c req now st)) c =
          Some (conn\<lparr>lastSeen := now, currentRoomId := Some r'\<rparr>)"
        by (simp add: JoinRequest reg)
      show "claimedUserId (conn\<lparr>lastSeen := now, currentRoomId := Some r'\<rparr>) = Some u"
        using conn by simp
      show "currentRoomId (conn\<lparr>lastSeen := now, currentRoomId := Some r'\<rparr>) = Some r"
        if "u \<in> directory (fst (handle c req now st)) r" for r
      proof (cases "r = r'")
        case True
        then show ?thesis by simp
      next
        case False
        with that have "u \<in> directory st r \<and> currentRoomId conn \<noteq> Some r"
          by (auto simp: JoinRequest dir split: option.splits if_splits)
        with only show ?thesis by blast
      qed
    qed
  qed
qed


lemma handle_all_keeps_one_room:
  "in_one_room c u st \<Longrightarrow> in_one_room c u (handle_all c reqs st)"
proof (induction reqs arbitrary: st)
  case Nil
  then show ?case by (simp add: handle_all_def)
next
  case (Cons p reqs)
  obtain req now where p: "p = (req, now)" by (cases p)
  have "in_one_room c u (fst (handle c req now st))"
    using Cons.prems by (rule handle_keeps_one_room)
  then have "in_one_room c u (handle_all c reqs (fst (handle c req now st)))"
    by (rule Cons.IH)
  then show ?case by (simp add: handle_all_def p)
qed

text \<open>
  C5. Take a connection whose user is, to begin with, in no room but the one its Registry
  entry names (a connection that has just been registered and identified is in none).
  After any sequence of JOIN, LEAVE and PING requests of that connection this is still so;
  hence the user is never in two rooms: a JOIN of another room leaves the old one in the
  same step. Since this holds for every sequence, it holds after every prefix of one.
\<close>

theorem one_room_at_a_time:
  assumes "in_one_room c u st"
  shows "in_one_room c u (handle_all c reqs st) \<and>
     (\<forall>r1 r2. u \<in> directory (handle_all c reqs st) r1 \<and>
               u \<in> directory (handle_all c reqs st) r2 \<longrightarrow> r1 = r2)"
proof -
  define st' where "st' = handle_all c reqs st"
  have inv: "in_one_room c u st'"
    unfolding st'_def using assms by (rule handle_all_keeps_one_room)
  then obtain conn :: Connection where
    only: "\<forall>r. u \<in> directory st' r \<longrightarrow> currentRoomId conn = Some r"
    unfolding in_one_room_def by blast
  have "r1 = r2" if m1: "u \<in> directory st' r1" and m2: "u \<in> directory st' r2" for r1 r2
  proof -
    from only m1 have "currentRoomId conn = Some r1" by blast
    moreover from only m2 have "currentRoomId conn = Some r2" by blast
    ultimately show ?thesis by simp
  qed
  then have "\<forall>r1 r2. u \<in> directory st' r1 \<and> u \<in> directory st' r2 \<longrightarrow> r1 = r2"
    by blast
  with inv show ?thesis
    unfolding st'_def by (rule conjI)
qed

lemma alice_connected_fields:
  "registry alice_connected 7 =
      Some \<lparr>claimedUserId = Some ''alice'', claimedUsername = Some ''Alice'',
            currentRoomId = None, lastSeen = 0, online = True\<rparr>"
  "directory alice_connected = (\<lambda>r. {})"
  by (simp_all add: alice_connected_def identify_def register_def empty_state_def)

lemma alice_in_ops_fields:
  "registry alice_in_ops 7 =
      Some \<lparr>claimedUserId = Some ''alice'', claimedUsername = Some ''Alice'',
            currentRoomId = Some ''ops'', lastSeen = 10, online = True\<rparr>"
  "directory alice_in_ops = (\<lambda>r. {})(''ops'' := {''alice''})"
  unfolding alice_in_ops_def
  by (simp_all add: handle_join_registry [OF alice_connected_fields(1)]
      handle_join_directory [OF alice_connected_fields(1)] alice_connected_fields(2))

lemma alice_switches:
  "directory (handle_all 7 [(JoinRequest ''ops'', 10), (JoinRequest ''eng'', 20)] alice_connected)
     = (\<lambda>r. {})(''ops'' := {}, ''eng'' := {''alice''})"
proof -
  have "handle_all 7 [(JoinRequest ''ops'', 10), (JoinRequest ''eng'', 20)] alice_connected =
      fst (handle 7 (JoinRequest ''eng'') 20 alice_in_ops)"
    by (simp add: handle_all_def alice_in_ops_def)
  then show ?thesis
    by (simp add: handle_join_directory [OF alice_in_ops_fields(1)] alice_in_ops_fields(2))
qed

theorem one_room_at_a_time_witness:
  "in_one_room 7 ''alice'' alice_connected \<and>
   in_one_room 7 ''alice''
     (handle_all 7 [(JoinRequest ''ops'', 10), (JoinRequest ''eng'', 20)] alice_connected) \<and>
   directory (handle_all 7 [(JoinRequest ''ops'', 10), (JoinRequest ''eng'', 20)] alice_connected)
     ''eng'' = {''alice''} \<and>
   directory (handle_all 7 [(JoinRequest ''ops'', 10), (JoinRequest ''eng'', 20)] alice_connected)
     ''ops'' = {}"
proof -
  have start: "in_one_room 7 ''alice'' alice_connected"
    by (simp add: in_one_room_def alice_connected_fields)
  from start
    one_room_at_a_time [OF start, of "[(JoinRequest ''ops'', 10), (JoinRequest ''eng'', 20)]"]
  show ?thesis by (simp add: alice_switches)
qed

subsection \<open>JOIN then LEAVE\<close>

text \<open>
  The claim C6, as it is stated for every room and every user, fails for a user who is
  already in the room: the JOIN changes nothing and the LEAVE removes the user.
\<close>

theorem join_leave_round_trip_counterexample:
  "directory alice_in_ops ''ops'' = {''alice''} \<and>
   directory (fst (leave ''ops'' ''alice'' (fst (join ''ops'' ''alice'' alice_in_ops)))) ''ops''
     = {}"
  by (simp add: alice_in_ops_fields)

text \<open>
  C6, amended. \<open>join(roomId, userId)\<close> followed at once by \<open>leave(roomId, userId)\<close>
  leaves in the room its members before the JOIN without the user; so for a user who was
  not a member it gives back the state before the JOIN, the room's membership with it.
\<close>

theorem join_leave_round_trip:
  "directory (fst (leave r u (fst (join r u st)))) r = directory st r - {u} \<and>
   (u \<notin> directory st r \<longrightarrow> fst (leave r u (fst (join r u st))) = st)"
proof -
  have "fst (leave r u (fst (join r u st))) = st" if "u \<notin> directory st r"
    using that by (simp add: leave_def join_def Let_def)
  then show ?thesis by simp
qed

theorem join_leave_round_trip_witness:
  "''bob'' \<notin> directory alice_in_ops ''ops'' \<and>
   directory (fst (join ''ops'' ''bob'' alice_in_ops)) ''ops'' = {''bob'', ''alice''} \<and>
   fst (leave ''ops'' ''bob'' (fst (join ''ops'' ''bob'' alice_in_ops))) = alice_in_ops"
proof -
  have "''bob'' \<notin> directory alice_in_ops ''ops''"
    by (simp add: alice_in_ops_fields)
  with join_leave_round_trip [of "''ops''" "''bob''" alice_in_ops] show ?thesis
    by (simp add: alice_in_ops_fields)
qed

subsection \<open>LEAVE of a room the connection is not in\<close>

text \<open>
  The claim C7, as it is stated, fails on the Registry: the LEAVE is an inbound frame, and
  every inbound frame refreshes \<open>lastSeen\<close> of the connection it comes from.
\<close>

theorem leave_of_room_not_joined_counterexample:
  "registry alice_connected 7 =
      Some \<lparr>claimedUserId = Some ''alice'', claimedUsername = Some ''Alice'',
            currentRoomId = None, lastSeen = 0, online = True\<rparr> \<and>
   registry (fst (handle 7 (LeaveRequest ''ops'') 50 alice_connected)) 7 =
      Some \<lparr>claimedUserId = Some ''alice'', claimedUsername = Some ''Alice'',
            currentRoomId = None, lastSeen = 50, online = True\<rparr> \<and>
   fst (handle 7 (LeaveRequest ''ops'') 50 alice_connected) \<noteq> alice_connected"
proof -
  have after: "registry (fst (handle 7 (LeaveRequest ''ops'') 50 alice_connected)) 7 =
      Some \<lparr>claimedUserId = Some ''alice'', claimedUsername = Some ''Alice'',
            currentRoomId = None, lastSeen = 50, online = True\<rparr>"
    by (simp add: handle_leave_elsewhere [OF alice_connected_fields(1)])
  have "fst (handle 7 (LeaveRequest ''ops'') 50 alice_connected) \<noteq> alice_connected"
  proof
    assume "fst (handle 7 (LeaveRequest ''ops'') 50 alice_connected) = alice_connected"
    then have "registry (fst (handle 7 (LeaveRequest ''ops'') 50 alice_connected)) 7 =
        registry alice_connected 7"
      by simp
    then show False
      by (simp add: after alice_connected_fields(1))
  qed
  with after show ?thesis by (simp add: alice_connected_fields(1))
qed

text \<open>
  C7, amended. A LEAVE for a room the connection is not in (a room it never joined, a room
  that does not exist) is answered with no error and changes nothing in the Directory and
  nothing in the Registry but \<open>lastSeen\<close> of the connection that sent it; from a connection
  the Registry does not know it changes nothing at all. In the Directory, \<open>leave\<close> for a
  user who is not a member changes nothing, and for a room that does not exist it returns
  \<open>None\<close>, which is not an error.
\<close>

theorem leave_of_room_not_joined_is_noop:
  "(registry st c = None \<longrightarrow> handle c (LeaveRequest r) now st = (st, [])) \<and>
   (registry st c = Some conn \<and> currentRoomId conn \<noteq> Some r \<longrightarrow>
      handle c (LeaveRequest r) now st =
        (st\<lparr>registry := (registry st)(c \<mapsto> conn\<lparr>lastSeen := now\<rparr>)\<rparr>, [])) \<and>
   (u \<notin> directory st r \<longrightarrow> fst (leave r u st) = st) \<and>
   (directory st r = {} \<longrightarrow> leave r u st = (st, None))"
  by (simp add: handle_unknown handle_leave_elsewhere leave_absent) (simp add: leave_def)

theorem leave_of_room_not_joined_is_noop_witness:
  "registry alice_connected 9 = None \<and>
   handle 9 (LeaveRequest ''ops'') 50 alice_connected = (alice_connected, []) \<and>
   registry alice_in_ops 7 =
      Some \<lparr>claimedUserId = Some ''alice'', claimedUsername = Some ''Alice'',
            currentRoomId = Some ''ops'', lastSeen = 10, online = True\<rparr> \<and>
   handle 7 (LeaveRequest ''eng'') 50 alice_in_ops =
     (alice_in_ops\<lparr>registry := (registry alice_in_ops)(7 \<mapsto>
        \<lparr>claimedUserId = Some ''alice'', claimedUsername = Some ''Alice'',
         currentRoomId = Some ''ops'', lastSeen = 50, online = True\<rparr>)\<rparr>, []) \<and>
   ''alice'' \<notin> directory alice_in_ops ''eng'' \<and>
   fst (leave ''eng'' ''alice'' alice_in_ops) = alice_in_ops \<and>
   directory alice_in_ops ''eng'' = {} \<and>
   leave ''eng'' ''alice'' alice_in_ops = (alice_in_ops, None)"
proof -
  have unknown: "registry alice_connected 9 = None"
    by (simp add: alice_connected_def identify_def register_def empty_state_def)
  note known = alice_in_ops_fields(1)
  have empty: "directory alice_in_ops ''eng'' = {}"
    by (simp add: alice_in_ops_fields(2))
  from leave_of_room_not_joined_is_noop
         [of alice_connected 9 "''ops''" 50
             "\<lparr>claimedUserId = Some ''alice'', claimedUsername = Some ''Alice'',
               currentRoomId = None, lastSeen = 0, online = True\<rparr>" "''alice''"]
       leave_of_room_not_joined_is_noop
         [of alice_in_ops 7 "''eng''" 50
             "\<lparr>claimedUserId = Some ''alice'', claimedUsername = Some ''Alice'',
               currentRoomId = Some ''ops'', lastSeen = 10, online = True\<rparr>" "''alice''"]
       unknown known empty
  show ?thesis by simp
qed

subsection \<open>Who reconnects\<close>

lemma transport_close_purges: "registry (fst (transport_close k st)) k = None"
  by (simp add: transport_close_def unregister_def Let_def split_beta split: option.splits)

lemma transport_close_notices:
  "list_all (\<lambda>n. case n of RoomPresenceBroadcast room \<Rightarrow> True | SystemErrorReply c f \<Rightarrow> False)
     (snd (transport_close k st))"
  by (simp add: transport_close_def unregister_def Let_def split_beta split: option.splits)

lemma connectAndJoin_client:
  assumes "rStatus r \<noteq> Connecting"
  shows "clientRef (connectAndJoin r s) = Some (length (clients s))"
    and "clients (connectAndJoin r s) ! length (clients s) =
       \<lparr>reconnectDelay = 5000, webSocketUrl = rWsUrl r, onConnectRender = r,
        isActive = True, isConnected = False\<rparr>"
proof -
  have len: "length (clients (disconnect s)) = length (clients s)"
    by (simp add: disconnect_def deactivate_def unsubscribe_def emit_def set_client_flags_def
        Let_def split: option.splits)
  show "clientRef (connectAndJoin r s) = Some (length (clients s))"
    using assms len by (simp add: connectAndJoin_def Let_def)
  show "clients (connectAndJoin r s) ! length (clients s) =
       \<lparr>reconnectDelay = 5000, webSocketUrl = rWsUrl r, onConnectRender = r,
        isActive = True, isConnected = False\<rparr>"
    using assms len
    by (simp add: connectAndJoin_def activate_def set_client_flags_def emit_def Let_def
        nth_append)
qed

text \<open>
  C8. Re-establishing a lost stream is the client's business, with a fixed delay: every
  STOMP client the console builds, in any run, is configured with \<open>reconnectDelay: 5000\<close>,
  and \<open>connectAndJoin\<close> (outside a connecting render) puts such a client, activated, into
  \<open>clientRef\<close>. The engine of the specification does not retry: on a transport failure it
  purges the connection, sends nothing but the presence broadcast of the room left, and
  ignores whatever is addressed to that connection afterwards.
\<close>

theorem reconnect_is_the_clients_with_fixed_delay:
  "list_all (\<lambda>cl. reconnectDelay cl = 5000) (clients (run evs (initial ws uid))) \<and>
   (rStatus r \<noteq> Connecting \<longrightarrow>
      clientRef (connectAndJoin r s) = Some (length (clients s)) \<and>
      clients (connectAndJoin r s) ! length (clients s) =
        \<lparr>reconnectDelay = 5000, webSocketUrl = rWsUrl r, onConnectRender = r,
         isActive = True, isConnected = False\<rparr>) \<and>
   registry (fst (transport_close k st)) k = None \<and>
   list_all (\<lambda>n. case n of RoomPresenceBroadcast room \<Rightarrow> True | SystemErrorReply c f \<Rightarrow> False)
     (snd (transport_close k st)) \<and>
   handle k req now (fst (transport_close k st)) = (fst (transport_close k st), [])"
proof -
  have "console_inv uid (run evs (initial ws uid))"
    by (simp add: console_inv_run console_inv_initial)
  then have "list_all (\<lambda>cl. rUserId (onConnectRender cl) = uid \<and> reconnectDelay cl = 5000)
      (clients (run evs (initial ws uid)))"
    by (simp add: console_inv_def)
  then have "list_all (\<lambda>cl. reconnectDelay cl = 5000) (clients (run evs (initial ws uid)))"
    by (rule list_all_mono') simp
  then show ?thesis
    by (simp add: connectAndJoin_client transport_close_purges transport_close_notices
        handle_unknown)
qed

theorem reconnect_is_the_clients_with_fixed_delay_witness:
  "list_all (\<lambda>cl. reconnectDelay cl = 5000)
     (clients (run example_run (initial ''ws'' ''a1b2c3d4''))) \<and>
   clients (run example_run (initial ''ws'' ''a1b2c3d4'')) =
     [\<lparr>reconnectDelay = 5000, webSocketUrl = ''ws'',
       onConnectRender = current_render (initial ''ws'' ''a1b2c3d4''),
       isActive = True, isConnected = True\<rparr>] \<and>
   rStatus example_render \<noteq> Connecting \<and>
   clientRef (connectAndJoin example_render example_joined) = Some 1 \<and>
   reconnectDelay (clients (connectAndJoin example_render example_joined) ! 1) = 5000 \<and>
   registry (fst (transport_close 7 alice_in_ops)) 7 = None \<and>
   handle 7 PingRequest 60 (fst (transport_close 7 alice_in_ops)) =
     (fst (transport_close 7 alice_in_ops), [])"
proof -
  have len: "length (clients example_joined) = 1"
    by (simp add: example_joined_def example_connected_def initial_def)
  from reconnect_is_the_clients_with_fixed_delay
         [of example_run "''ws''" "''a1b2c3d4''" example_render example_joined 7 alice_in_ops
             PingRequest 60]
  show ?thesis
    by (simp add: len example_run_clients example_render_def)
qed

end
